theory Spec2Isabelle
  imports Complex_Main
begin

section \<open>Python strings\<close>

text \<open>
  A Python \<open>str\<close> is a sequence of Unicode code points; \<open>len\<close> counts code points.
  Code points are natural numbers here, and \<open>lit\<close> turns an ASCII literal into one.
\<close>

type_synonym codepoint = nat
type_synonym ustring = "codepoint list"

definition lit :: "string \<Rightarrow> ustring" where
  "lit s = map of_char s"

text \<open>The characters \<open>str.isspace\<close> accepts; \<open>str.strip()\<close> and \<open>str.split()\<close> use the same set.\<close>

definition isspace :: "codepoint \<Rightarrow> bool" where
  "isspace c \<longleftrightarrow>
     (9 \<le> c \<and> c \<le> 13) \<or> (28 \<le> c \<and> c \<le> 32) \<or> c = 133 \<or> c = 160 \<or> c = 5760 \<or>
     (8192 \<le> c \<and> c \<le> 8202) \<or> c = 8232 \<or> c = 8233 \<or> c = 8239 \<or> c = 8287 \<or> c = 12288"

definition str_strip :: "ustring \<Rightarrow> ustring" where
  "str_strip s = rev (dropWhile isspace (rev (dropWhile isspace s)))"

text \<open>\<open>s.split()\<close>: the maximal runs of non-whitespace, in order. The first argument is the
  word being read.\<close>

fun split_acc :: "ustring \<Rightarrow> ustring \<Rightarrow> ustring list" where
  "split_acc w [] = (if w = [] then [] else [w])"
| "split_acc w (c # cs) =
     (if isspace c then (if w = [] then split_acc [] cs else w # split_acc [] cs)
      else split_acc (w @ [c]) cs)"

definition str_split :: "ustring \<Rightarrow> ustring list" where
  "str_split s = split_acc [] s"

fun str_startswith :: "ustring \<Rightarrow> ustring \<Rightarrow> bool" where
  "str_startswith s [] = True"
| "str_startswith [] (p # ps) = False"
| "str_startswith (c # cs) (p # ps) = (c = p \<and> str_startswith cs ps)"

definition str_endswith :: "ustring \<Rightarrow> ustring \<Rightarrow> bool" where
  "str_endswith s p = str_startswith (rev s) (rev p)"

text \<open>\<open>sub in s\<close>.\<close>

fun str_contains :: "ustring \<Rightarrow> ustring \<Rightarrow> bool" where
  "str_contains [] sub = (sub = [])"
| "str_contains (c # cs) sub = (str_startswith (c # cs) sub \<or> str_contains cs sub)"

text \<open>\<open>sep.join(xs)\<close>.\<close>

fun str_join :: "ustring \<Rightarrow> ustring list \<Rightarrow> ustring" where
  "str_join sep [] = []"
| "str_join sep [x] = x"
| "str_join sep (x # y # ys) = x @ sep @ str_join sep (y # ys)"

text \<open>The number of non-whitespace characters of a string: the size of a text up to
  whitespace normalisation.\<close>

definition ink :: "ustring \<Rightarrow> nat" where
  "ink s = length (filter (\<lambda>c. \<not> isspace c) s)"

text \<open>The case mappings \<open>str.lower\<close> and \<open>str.upper\<close> depend on the Unicode tables of the
  interpreter; the segmenter takes them as parameters. On ASCII text they are the two
  functions below.\<close>

definition ascii_lower :: "ustring \<Rightarrow> ustring" where
  "ascii_lower s = map (\<lambda>c. if 65 \<le> c \<and> c \<le> 90 then c + 32 else c) s"

definition ascii_upper :: "ustring \<Rightarrow> ustring" where
  "ascii_upper s = map (\<lambda>c. if 97 \<le> c \<and> c \<le> 122 then c - 32 else c) s"


section \<open>Section segmentation: \<open>extract_structured_content\<close>\<close>

text \<open>The analysis result of the SDK as the function reads it: \<open>content\<close>, and \<open>pages\<close>
  with their \<open>lines\<close> (the \<open>content\<close> of each line). An attribute that is absent or
  \<open>None\<close> is \<open>None\<close>.\<close>

record di_page =
  lines :: "ustring list option"

record di_result =
  content :: "ustring option"
  pages :: "di_page list option"

definition section_keywords :: "ustring list" where
  "section_keywords = map lit
     [''work experience'', ''experience'', ''employment'', ''professional experience'',
      ''education'', ''academic background'', ''qualifications'',
      ''skills'', ''technical skills'', ''core competencies'', ''expertise'',
      ''projects'', ''key projects'', ''notable projects'',
      ''certifications'', ''certificates'', ''achievements'',
      ''summary'', ''profile'', ''objective'', ''about'',
      ''contact'', ''personal information'']"

definition is_section_header :: "(ustring \<Rightarrow> ustring) \<Rightarrow> ustring \<Rightarrow> bool" where
  "is_section_header lower line_text =
     list_ex (\<lambda>keyword. str_contains (lower line_text) keyword) section_keywords"

text \<open>The bullet \<open>U+2022\<close> is code point 8226.\<close>

definition is_likely_header :: "ustring \<Rightarrow> bool" where
  "is_likely_header line_text \<longleftrightarrow>
     length (str_split line_text) \<le> 4 \<and>
     \<not> str_endswith line_text (lit ''.'') \<and>
     \<not> str_startswith line_text [8226] \<and>
     \<not> str_startswith line_text (lit ''-'')"

text \<open>The loop variables. \<open>current_section\<close> starts as \<open>None\<close>; the tests
  \<open>if current_section:\<close> and \<open>if current_paragraph:\<close> are Python truth tests.\<close>

record seg_state =
  current_section :: "ustring option"
  current_paragraph :: "ustring list"
  structured_sections :: "ustring list"

fun truthy_str :: "ustring option \<Rightarrow> bool" where
  "truthy_str None = False"
| "truthy_str (Some s) = (s \<noteq> [])"

text \<open>\<open>current_section += t\<close>, executed only where the truth test has passed.\<close>

fun add_str :: "ustring option \<Rightarrow> ustring \<Rightarrow> ustring option" where
  "add_str None t = None"
| "add_str (Some s) t = Some (s @ t)"

text \<open>The two steps that end a section: the pending paragraph joins the section,
  and the section joins the output.\<close>

definition save_section :: "seg_state \<Rightarrow> seg_state" where
  "save_section st =
     (let cs = (if truthy_str (current_section st) \<and> current_paragraph st \<noteq> []
                then add_str (current_section st)
                       (lit '' '' @ str_join (lit '' '') (current_paragraph st))
                else current_section st)
      in st\<lparr>current_section := cs,
            structured_sections :=
              (if truthy_str cs then structured_sections st @ [the cs]
               else structured_sections st)\<rparr>)"

text \<open>The body of \<open>for line in page.lines\<close>, branch by branch: an empty line, a
  header line, any other line.\<close>

definition on_blank :: "seg_state \<Rightarrow> seg_state" where
  "on_blank st =
     (if current_paragraph st \<noteq> [] then
        st\<lparr>current_section :=
              (if truthy_str (current_section st)
               then add_str (current_section st)
                      (lit '' '' @ str_join (lit '' '') (current_paragraph st))
               else current_section st),
            current_paragraph := []\<rparr>
      else st)"

definition section_title :: "(ustring \<Rightarrow> ustring) \<Rightarrow> ustring \<Rightarrow> ustring" where
  "section_title upper line_text = lit ''\<newline>\<newline>=== '' @ upper line_text @ lit '' ===\<newline>''"

definition on_header :: "(ustring \<Rightarrow> ustring) \<Rightarrow> seg_state \<Rightarrow> ustring \<Rightarrow> seg_state" where
  "on_header upper st line_text =
     (save_section st)
       \<lparr>current_section := Some (section_title upper line_text), current_paragraph := []\<rparr>"

definition on_text :: "seg_state \<Rightarrow> ustring \<Rightarrow> seg_state" where
  "on_text st line_text =
     (let paragraph = current_paragraph st @ [line_text] in
      if str_endswith line_text (lit ''.'') \<or> str_endswith line_text (lit '':'') \<or>
         length paragraph > 3
      then
        st\<lparr>current_section :=
              (if truthy_str (current_section st)
               then add_str (current_section st)
                      (lit '' '' @ str_join (lit '' '') paragraph @ lit ''\<newline>'')
               else current_section st),
            current_paragraph := []\<rparr>
      else st\<lparr>current_paragraph := paragraph\<rparr>)"

definition process_line ::
  "(ustring \<Rightarrow> ustring) \<Rightarrow> (ustring \<Rightarrow> ustring) \<Rightarrow> seg_state \<Rightarrow> ustring \<Rightarrow> seg_state" where
  "process_line lower upper st line =
     (let line_text = str_strip line in
      if line_text = [] then on_blank st
      else if is_section_header lower line_text \<or> is_likely_header line_text
      then on_header upper st line_text
      else on_text st line_text)"

text \<open>One page with lines: the loop from a fresh section and paragraph, then the last
  section. \<open>structured_sections\<close> is shared by all pages.\<close>

definition process_page ::
  "(ustring \<Rightarrow> ustring) \<Rightarrow> (ustring \<Rightarrow> ustring) \<Rightarrow> ustring list \<Rightarrow> ustring list \<Rightarrow> ustring list" where
  "process_page lower upper sections ls =
     structured_sections
       (save_section
          (foldl (process_line lower upper)
             \<lparr>current_section = None, current_paragraph = [], structured_sections = sections\<rparr>
             ls))"

definition page_step ::
  "(ustring \<Rightarrow> ustring) \<Rightarrow> (ustring \<Rightarrow> ustring) \<Rightarrow> ustring list \<Rightarrow> di_page \<Rightarrow> ustring list" where
  "page_step lower upper sections page =
     (case lines page of
        None \<Rightarrow> sections
      | Some ls \<Rightarrow> if ls = [] then sections else process_page lower upper sections ls)"

definition extract_structured_content ::
  "(ustring \<Rightarrow> ustring) \<Rightarrow> (ustring \<Rightarrow> ustring) \<Rightarrow> di_result \<Rightarrow> ustring" where
  "extract_structured_content lower upper result =
     (let raw = (case content result of None \<Rightarrow> [] | Some c \<Rightarrow> c);
          sections = (case pages result of
                        None \<Rightarrow> []
                      | Some ps \<Rightarrow> foldl (page_step lower upper) [] ps)
      in if sections \<noteq> [] then str_join (lit ''\<newline>'') sections else raw)"

subsection \<open>Specification-side notions for segmentation\<close>

text \<open>A one-page document whose first line precedes the only header, and a two-page
  document whose second page has no header.\<close>

definition demo_result :: di_result where
  "demo_result = \<lparr>content = Some (lit ''John has ten years of Python. Skills''),
     pages = Some [\<lparr>lines = Some [lit ''John has ten years of Python.'', lit ''Skills'']\<rparr>]\<rparr>"

definition two_page_result :: di_result where
  "two_page_result = \<lparr>content = Some (lit ''Skills Python and SQL. Worked at Acme for ten years.''),
     pages = Some [\<lparr>lines = Some [lit ''Skills'', lit ''Python and SQL.'']\<rparr>,
                   \<lparr>lines = Some [lit ''Worked at Acme for ten years.'']\<rparr>]\<rparr>"

text \<open>The header test in the words of the specification: a keyword occurs in the
  lowercased line, or the line has at most four words, no final period and no leading bullet
  or hyphen.\<close>

definition spec_is_header :: "(ustring \<Rightarrow> ustring) \<Rightarrow> ustring \<Rightarrow> bool" where
  "spec_is_header lower t \<longleftrightarrow>
     (\<exists>k \<in> set section_keywords. \<exists>pre post. lower t = pre @ k @ post)
     \<or> (length (str_split t) \<le> 4
        \<and> \<not> (\<exists>pre. t = pre @ lit ''.'')
        \<and> \<not> (\<exists>post. t = [8226] @ post)
        \<and> \<not> (\<exists>post. t = lit ''-'' @ post))"

section \<open>Decoded JSON values\<close>

text \<open>
  What \<open>json.loads\<close> and \<open>response.json()\<close> return. A Python \<open>float\<close> is given by the
  decimal value of its literal; an object is the list of its items in insertion order.
\<close>

datatype pyfloat = Dec rat | PosInf | NegInf | NaN

datatype json =
    JNull
  | JBool bool
  | JInt int
  | JFloat pyfloat
  | JStr ustring
  | JArr "json list"
  | JObj "(ustring \<times> json) list"

text \<open>The Python truth test on a decoded value, as in \<open>if not analysis_json\<close>.\<close>

fun truthy :: "json \<Rightarrow> bool" where
  "truthy JNull = False"
| "truthy (JBool b) = b"
| "truthy (JInt i) = (i \<noteq> 0)"
| "truthy (JFloat (Dec r)) = (r \<noteq> 0)"
| "truthy (JFloat PosInf) = True"
| "truthy (JFloat NegInf) = True"
| "truthy (JFloat NaN) = True"
| "truthy (JStr s) = (s \<noteq> [])"
| "truthy (JArr xs) = (xs \<noteq> [])"
| "truthy (JObj kvs) = (kvs \<noteq> [])"

text \<open>Exceptions: \<open>Exception(message)\<close> raised by the source, and the exceptions the
  interpreter and the libraries raise, whose message is not fixed by the source.\<close>

datatype builtin_error = AttributeError | TypeError | KeyError | JSONDecodeError | OSError

datatype exn = Exception ustring | Builtin builtin_error

text \<open>\<open>v.get(key, default)\<close>: only a \<open>dict\<close> has the method.\<close>

fun py_get :: "json \<Rightarrow> ustring \<Rightarrow> json \<Rightarrow> exn + json" where
  "py_get (JObj kvs) key dflt = Inr (case map_of kvs key of None \<Rightarrow> dflt | Some v \<Rightarrow> v)"
| "py_get v key dflt = Inl (Builtin AttributeError)"

text \<open>\<open>len(v)\<close> is defined on strings, lists and dicts.\<close>

fun has_len :: "json \<Rightarrow> bool" where
  "has_len (JStr s) = True"
| "has_len (JArr xs) = True"
| "has_len (JObj kvs) = True"
| "has_len v = False"

text \<open>\<open>str(n)\<close> for a natural number.\<close>

fun str_nat :: "nat \<Rightarrow> ustring" where
  "str_nat n = (if n < 10 then [48 + n] else str_nat (n div 10) @ [48 + n mod 10])"

declare str_nat.simps [simp del]

section \<open>REST extraction: \<open>extract_text_from_pdf_rest\<close>\<close>

text \<open>
  A response of the \<open>requests\<close> library as the function reads it: \<open>status_code\<close>,
  \<open>text\<close>, the header \<open>Operation-Location\<close> (if present) and the value of \<open>json()\<close>
  (\<open>None\<close> where the body is not JSON and \<open>json()\<close> raises).
\<close>

record response =
  status_code :: nat
  resp_text :: ustring
  operation_location :: "ustring option"
  resp_json :: "json option"

text \<open>What the function does to the outside world, in order. The service is given by the
  responses to the successive \<open>POST\<close> requests and to the successive polls.\<close>

datatype event = HttpPost ustring ustring | Sleep nat | HttpGet ustring

definition api_versions :: "ustring list" where
  "api_versions = map lit [''2024-02-29-preview'', ''2023-07-31'', ''2022-08-31'']"

definition analyze_url :: "ustring \<Rightarrow> ustring \<Rightarrow> ustring" where
  "analyze_url endpoint api_version =
     endpoint @ lit ''/documentintelligence/documentModels/prebuilt-read:analyze?api-version=''
       @ api_version"

definition legacy_url :: "ustring \<Rightarrow> ustring" where
  "legacy_url endpoint =
     endpoint @ lit ''/formrecognizer/documentModels/prebuilt-read:analyze?api-version=2022-08-31''"

text \<open>\<open>for api_version in api_versions\<close>, from attempt number \<open>i\<close>: the result is the
  response at the \<open>break\<close>, or \<open>None\<close> when the list is exhausted and the \<open>else\<close> clause of
  the loop runs. Status 401 and the other statuses both \<open>continue\<close>; they differ in the
  line printed.\<close>

fun version_loop ::
  "(nat \<Rightarrow> response) \<Rightarrow> ustring \<Rightarrow> ustring \<Rightarrow> nat \<Rightarrow> ustring list
     \<Rightarrow> response option \<times> event list" where
  "version_loop posts endpoint pdf_data i [] = (None, [])"
| "version_loop posts endpoint pdf_data i (api_version # rest) =
     (let ev = HttpPost (analyze_url endpoint api_version) pdf_data;
          r = posts i
      in if status_code r = 202 then (Some r, [ev])
         else if status_code r = 401 then
           (case version_loop posts endpoint pdf_data (Suc i) rest of (res, evs) \<Rightarrow> (res, ev # evs))
         else
           (case version_loop posts endpoint pdf_data (Suc i) rest of (res, evs) \<Rightarrow> (res, ev # evs)))"

text \<open>The loop with its \<open>else\<close> clause: the legacy Form Recognizer endpoint.\<close>

definition start_analysis ::
  "(nat \<Rightarrow> response) \<Rightarrow> ustring \<Rightarrow> ustring \<Rightarrow> response \<times> event list" where
  "start_analysis posts endpoint pdf_data =
     (case version_loop posts endpoint pdf_data 0 api_versions of
        (Some r, evs) \<Rightarrow> (r, evs)
      | (None, evs) \<Rightarrow>
          (posts (length api_versions), evs @ [HttpPost (legacy_url endpoint) pdf_data]))"

text \<open>The check of the response after the loop.\<close>

definition start_error :: "response \<Rightarrow> exn" where
  "start_error r =
     (let error_details = lit ''Status: '' @ str_nat (status_code r) @ lit '', Response: '' @ resp_text r
      in if status_code r = 401
         then Exception (lit ''Authentication failed. Please check your Azure Document Intelligence key and endpoint.\<newline>'' @ error_details)
         else Exception (lit ''Failed to start analysis: '' @ error_details))"

text \<open>One iteration of the polling loop after \<open>time.sleep(2)\<close> and the \<open>GET\<close>. The parameter
  \<open>str_json\<close> is \<open>str\<close> on decoded values, used by the f-strings.\<close>

datatype poll_outcome = Return json | Raise exn | Continue

definition poll_once :: "(json \<Rightarrow> ustring) \<Rightarrow> response \<Rightarrow> poll_outcome" where
  "poll_once str_json r =
     (if status_code r \<noteq> 200 then
        Raise (Exception (lit ''Failed to get results: '' @ str_nat (status_code r)
                            @ lit '' - '' @ resp_text r))
      else case resp_json r of
        None \<Rightarrow> Raise (Builtin JSONDecodeError)
      | Some result_data \<Rightarrow>
          (case py_get result_data (lit ''status'') JNull of
             Inl e \<Rightarrow> Raise e
           | Inr status \<Rightarrow>
               if status = JStr (lit ''succeeded'') then
                 (case py_get result_data (lit ''analyzeResult'') (JObj []) of
                    Inl e \<Rightarrow> Raise e
                  | Inr analyze_result \<Rightarrow>
                      (case py_get analyze_result (lit ''content'') (JStr []) of
                         Inl e \<Rightarrow> Raise e
                       | Inr c \<Rightarrow> if has_len c then Return c else Raise (Builtin TypeError)))
               else if status = JStr (lit ''failed'') then
                 (case py_get result_data (lit ''error'') (JObj []) of
                    Inl e \<Rightarrow> Raise e
                  | Inr err \<Rightarrow> Raise (Exception (lit ''Analysis failed: '' @ str_json err)))
               else if status \<in> set [JStr (lit ''running''), JStr (lit ''notStarted'')] then
                 Continue
               else Raise (Exception (lit ''Unknown status: '' @ str_json status))))"

definition max_attempts :: nat where
  "max_attempts = 30"

text \<open>\<open>for attempt in range(max_attempts)\<close>, from attempt \<open>attempt\<close> with \<open>n\<close> attempts
  left; after the loop, the time-out.\<close>

fun poll_loop ::
  "(json \<Rightarrow> ustring) \<Rightarrow> (nat \<Rightarrow> response) \<Rightarrow> ustring \<Rightarrow> nat \<Rightarrow> nat
     \<Rightarrow> (exn + json) \<times> event list" where
  "poll_loop str_json polls url attempt 0 = (Inl (Exception (lit ''Analysis timed out'')), [])"
| "poll_loop str_json polls url attempt (Suc n) =
     (case poll_once str_json (polls attempt) of
        Return c \<Rightarrow> (Inr c, [Sleep 2, HttpGet url])
      | Raise e \<Rightarrow> (Inl e, [Sleep 2, HttpGet url])
      | Continue \<Rightarrow>
          (case poll_loop str_json polls url (Suc attempt) n of
             (res, evs) \<Rightarrow> (res, [Sleep 2, HttpGet url] @ evs)))"

text \<open>\<open>endpoint.rstrip('/')\<close>.\<close>

definition rstrip_slash :: "ustring \<Rightarrow> ustring" where
  "rstrip_slash s = rev (dropWhile (\<lambda>c. c = 47) (rev s))"

text \<open>The body of the \<open>try\<close>. \<open>di_key\<close> and \<open>di_endpoint\<close> come from the environment;
  \<open>pdf\<close> is the content of the file, \<open>None\<close> where it cannot be read.\<close>

definition rest_body ::
  "(json \<Rightarrow> ustring) \<Rightarrow> ustring option \<Rightarrow> ustring option \<Rightarrow> ustring option
     \<Rightarrow> (nat \<Rightarrow> response) \<Rightarrow> (nat \<Rightarrow> response) \<Rightarrow> (exn + json) \<times> event list" where
  "rest_body str_json di_key di_endpoint pdf posts polls =
     (if \<not> truthy_str di_key \<or> \<not> truthy_str di_endpoint then
        (Inl (Exception (lit ''Azure Document Intelligence credentials not found. Please check your .env file.'')), [])
      else case pdf of
        None \<Rightarrow> (Inl (Builtin OSError), [])
      | Some pdf_data \<Rightarrow>
          (let endpoint = rstrip_slash (the di_endpoint);
               (r, evs) = start_analysis posts endpoint pdf_data
           in if status_code r \<noteq> 202 then (Inl (start_error r), evs)
              else if \<not> truthy_str (operation_location r) then
                (Inl (Exception (lit ''No operation location returned'')), evs)
              else
                (case poll_loop str_json polls (the (operation_location r)) 0 max_attempts of
                   (res, evs') \<Rightarrow> (res, evs @ evs'))))"

text \<open>\<open>except Exception as e: raise Exception(f"Error extracting text from PDF: {str(e)}")\<close>;
  \<open>str_error\<close> is \<open>str\<close> on the exceptions of the interpreter.\<close>

fun exn_str :: "(builtin_error \<Rightarrow> ustring) \<Rightarrow> exn \<Rightarrow> ustring" where
  "exn_str str_error (Exception msg) = msg"
| "exn_str str_error (Builtin b) = str_error b"

definition extract_text_from_pdf_rest ::
  "(builtin_error \<Rightarrow> ustring) \<Rightarrow> (json \<Rightarrow> ustring) \<Rightarrow> ustring option \<Rightarrow> ustring option
     \<Rightarrow> ustring option \<Rightarrow> (nat \<Rightarrow> response) \<Rightarrow> (nat \<Rightarrow> response)
     \<Rightarrow> (exn + json) \<times> event list" where
  "extract_text_from_pdf_rest str_error str_json di_key di_endpoint pdf posts polls =
     (case rest_body str_json di_key di_endpoint pdf posts polls of
        (Inl e, evs) \<Rightarrow>
          (Inl (Exception (lit ''Error extracting text from PDF: '' @ exn_str str_error e)), evs)
      | (Inr c, evs) \<Rightarrow> (Inr c, evs))"

subsection \<open>Notions used to state the extraction claims\<close>

text \<open>The request submitted for one API version.\<close>

definition post_event :: "ustring \<Rightarrow> ustring \<Rightarrow> ustring \<Rightarrow> event" where
  "post_event endpoint pdf_data api_version = HttpPost (analyze_url endpoint api_version) pdf_data"

fun is_post :: "event \<Rightarrow> bool" where
  "is_post (HttpPost url pdf_data) = True"
| "is_post e = False"

text \<open>One poll: the wait, then the request.\<close>

definition poll_events :: "ustring \<Rightarrow> nat \<Rightarrow> event list" where
  "poll_events url m = concat (replicate m [Sleep 2, HttpGet url])"

text \<open>A poll response with HTTP status 200 whose body is an object with the given
  \<open>status\<close> (\<open>JNull\<close> where the key is absent).\<close>

fun json_items :: "json \<Rightarrow> (ustring \<times> json) list option" where
  "json_items (JObj kvs) = Some kvs"
| "json_items v = None"

definition poll_status :: "response \<Rightarrow> json option" where
  "poll_status r =
     (if status_code r = 200 then
        (case resp_json r of
           None \<Rightarrow> None
         | Some v \<Rightarrow>
             (case json_items v of
                None \<Rightarrow> None
              | Some kvs \<Rightarrow>
                  Some (case map_of kvs (lit ''status'') of None \<Rightarrow> JNull | Some s \<Rightarrow> s)))
      else None)"

definition still_running :: "response \<Rightarrow> bool" where
  "still_running r \<longleftrightarrow>
     poll_status r = Some (JStr (lit ''running'')) \<or> poll_status r = Some (JStr (lit ''notStarted''))"

text \<open>The value of a key in the body of a poll response, with the default of \<open>get\<close>.\<close>

definition body_get :: "response \<Rightarrow> ustring \<Rightarrow> json \<Rightarrow> json" where
  "body_get r key dflt =
     (case resp_json r of
        None \<Rightarrow> dflt
      | Some v \<Rightarrow>
          (case json_items v of
             None \<Rightarrow> dflt
           | Some kvs \<Rightarrow> (case map_of kvs key of None \<Rightarrow> dflt | Some x \<Rightarrow> x)))"

text \<open>Responses and renderings used in the examples.\<close>

definition plain_response :: "nat \<Rightarrow> string \<Rightarrow> response" where
  "plain_response code body =
     \<lparr>status_code = code, resp_text = lit body, operation_location = None, resp_json = None\<rparr>"

definition accepted_response :: response where
  "accepted_response =
     \<lparr>status_code = 202, resp_text = [], operation_location = Some (lit ''https://x/op/1''),
      resp_json = None\<rparr>"

definition status_response :: "string \<Rightarrow> response" where
  "status_response s =
     \<lparr>status_code = 200, resp_text = [], operation_location = None,
      resp_json = Some (JObj [(lit ''status'', JStr (lit s))])\<rparr>"

definition no_str_error :: "builtin_error \<Rightarrow> ustring" where
  "no_str_error b = []"

definition no_str_json :: "json \<Rightarrow> ustring" where
  "no_str_json v = []"

definition refusing_posts :: "nat \<Rightarrow> response" where
  "refusing_posts i =
     (if i = 0 then plain_response 404 ''a''
      else if i = 1 then plain_response 500 ''b''
      else if i = 2 then plain_response 503 ''c''
      else plain_response 400 ''d'')"

definition succeeded_response :: response where
  "succeeded_response =
     \<lparr>status_code = 200, resp_text = [], operation_location = None,
      resp_json = Some (JObj [(lit ''status'', JStr (lit ''succeeded'')),
                              (lit ''analyzeResult'', JObj [(lit ''content'', JStr (lit ''John Doe''))])])\<rparr>"

text \<open>\<open>str\<close> of a string is the string itself. The examples render strings only; on other
  values this function is not Python's \<open>str\<close>.\<close>

definition str_text :: "json \<Rightarrow> ustring" where
  "str_text v = (case v of JStr s \<Rightarrow> s | _ \<Rightarrow> [])"

text \<open>Poll responses with HTTP status 200 and the given body.\<close>

definition body_response :: "json \<Rightarrow> response" where
  "body_response v =
     \<lparr>status_code = 200, resp_text = [], operation_location = None, resp_json = Some v\<rparr>"

definition failed_response :: response where
  "failed_response =
     body_response (JObj [(lit ''status'', JStr (lit ''failed'')),
                          (lit ''error'', JStr (lit ''quota exceeded''))])"

definition null_result_response :: response where
  "null_result_response =
     body_response (JObj [(lit ''status'', JStr (lit ''succeeded'')),
                          (lit ''analyzeResult'', JNull)])"

definition null_content_response :: response where
  "null_content_response =
     body_response (JObj [(lit ''status'', JStr (lit ''succeeded'')),
                          (lit ''analyzeResult'', JObj [(lit ''content'', JNull)])])"

text \<open>One poll that finds the analysis running, then the result.\<close>

definition running_then_succeeded :: "nat \<Rightarrow> response" where
  "running_then_succeeded i = (if i = 0 then status_response ''running'' else succeeded_response)"

section \<open>A model of \<open>json.loads\<close>\<close>

text \<open>
  The decoder of the standard library, after \<open>json.decoder\<close> and \<open>json.scanner\<close>: white
  space is space, tab, line feed and carriage return; a value is a string, an object, an
  array, \<open>null\<close>, \<open>true\<close>, \<open>false\<close>, a number, or one of \<open>NaN\<close>, \<open>Infinity\<close>,
  \<open>-Infinity\<close>; text after the value is an error. \<open>None\<close> stands for \<open>JSONDecodeError\<close>.
  The functions of the repository take the decoder as a parameter \<open>loads\<close>; this model is
  the one used in the examples. The limits of the interpreter (recursion depth, the range
  of \<open>float\<close>) are left out.
\<close>

definition is_ws :: "codepoint \<Rightarrow> bool" where
  "is_ws c \<longleftrightarrow> c = 32 \<or> c = 9 \<or> c = 10 \<or> c = 13"

definition skip_ws :: "ustring \<Rightarrow> ustring" where
  "skip_ws s = dropWhile is_ws s"

definition is_digit :: "codepoint \<Rightarrow> bool" where
  "is_digit c \<longleftrightarrow> 48 \<le> c \<and> c \<le> 57"

definition digits_value :: "ustring \<Rightarrow> nat" where
  "digits_value ds = foldl (\<lambda>a d. 10 * a + (d - 48)) 0 ds"

definition hex_digit :: "codepoint \<Rightarrow> nat option" where
  "hex_digit c =
     (if 48 \<le> c \<and> c \<le> 57 then Some (c - 48)
      else if 97 \<le> c \<and> c \<le> 102 then Some (c - 87)
      else if 65 \<le> c \<and> c \<le> 70 then Some (c - 55)
      else None)"

text \<open>The four hexadecimal digits of a \<open>\u\<close> escape, and the rest.\<close>

fun hex4 :: "ustring \<Rightarrow> (nat \<times> ustring) option" where
  "hex4 (a # b # c # d # rest) =
     (case (hex_digit a, hex_digit b, hex_digit c, hex_digit d) of
        (Some x, Some y, Some z, Some w) \<Rightarrow> Some (((x * 16 + y) * 16 + z) * 16 + w, rest)
      | _ \<Rightarrow> None)"
| "hex4 s = None"

definition unescape :: "codepoint \<Rightarrow> codepoint option" where
  "unescape e =
     (if e = 34 then Some 34 else if e = 92 then Some 92 else if e = 47 then Some 47
      else if e = 98 then Some 8 else if e = 102 then Some 12 else if e = 110 then Some 10
      else if e = 114 then Some 13 else if e = 116 then Some 9 else None)"

text \<open>A \<open>\u\<close> escape, with a following low surrogate joined to a high one.\<close>

definition unicode_escape :: "ustring \<Rightarrow> (codepoint \<times> ustring) option" where
  "unicode_escape s =
     (case hex4 s of
        None \<Rightarrow> None
      | Some (u, rest) \<Rightarrow>
          if 55296 \<le> u \<and> u \<le> 56319 \<and> str_startswith rest [92, 117] then
            (case hex4 (drop 2 rest) of
               None \<Rightarrow> Some (u, rest)
             | Some (u2, rest2) \<Rightarrow>
                 if 56320 \<le> u2 \<and> u2 \<le> 57343
                 then Some (65536 + (u - 55296) * 1024 + (u2 - 56320), rest2)
                 else Some (u, rest))
          else Some (u, rest))"

text \<open>A string after its opening quote: the characters read so far, then the input.\<close>

function scan_string :: "ustring \<Rightarrow> ustring \<Rightarrow> (ustring \<times> ustring) option" where
  "scan_string acc [] = None"
| "scan_string acc (c # cs) =
     (if c = 34 then Some (acc, cs)
      else if c = 92 then
        (case cs of
           [] \<Rightarrow> None
         | e # es \<Rightarrow>
             if e = 117 then
               (case unicode_escape es of
                  None \<Rightarrow> None
                | Some (u, rest) \<Rightarrow>
                    if length rest < length (c # cs) then scan_string (acc @ [u]) rest else None)
             else
               (case unescape e of
                  None \<Rightarrow> None
                | Some ch \<Rightarrow> scan_string (acc @ [ch]) es))
      else if c < 32 then None
      else scan_string (acc @ [c]) cs)"
  by pat_completeness auto
termination
  by (relation "measure (\<lambda>(acc, s). length s)") auto

text \<open>A number: \<open>(-?(?:0|[1-9]\d*))(\.\d+)?([eE][-+]?\d+)?\<close>; an \<open>int\<close> where it has neither
  fraction nor exponent.\<close>

definition scan_int_part :: "ustring \<Rightarrow> (ustring \<times> ustring) option" where
  "scan_int_part s =
     (case s of
        [] \<Rightarrow> None
      | c # cs \<Rightarrow>
          if c = 48 then Some ([48], cs)
          else if is_digit c then Some (takeWhile is_digit s, dropWhile is_digit s)
          else None)"

definition scan_frac :: "ustring \<Rightarrow> ustring option \<times> ustring" where
  "scan_frac s =
     (case s of
        [] \<Rightarrow> (None, s)
      | c # cs \<Rightarrow>
          if c = 46 \<and> takeWhile is_digit cs \<noteq> []
          then (Some (takeWhile is_digit cs), dropWhile is_digit cs)
          else (None, s))"

definition scan_exp :: "ustring \<Rightarrow> int option \<times> ustring" where
  "scan_exp s =
     (case s of
        [] \<Rightarrow> (None, s)
      | c # cs \<Rightarrow>
          if c = 101 \<or> c = 69 then
            (let neg = str_startswith cs [45];
                 ds = (if str_startswith cs [45] \<or> str_startswith cs [43] then drop 1 cs else cs)
             in if takeWhile is_digit ds = [] then (None, s)
                else (Some ((if neg then - 1 else 1) * int (digits_value (takeWhile is_digit ds))),
                      dropWhile is_digit ds))
          else (None, s))"

definition decimal_value :: "bool \<Rightarrow> ustring \<Rightarrow> ustring \<Rightarrow> int \<Rightarrow> rat" where
  "decimal_value neg ip fp e =
     (if neg then - 1 else 1)
       * (of_nat (digits_value ip) + of_nat (digits_value fp) / 10 ^ length fp)
       * (if 0 \<le> e then 10 ^ nat e else 1 / 10 ^ nat (- e))"

definition scan_number :: "ustring \<Rightarrow> (json \<times> ustring) option" where
  "scan_number s =
     (let neg = str_startswith s [45];
          s1 = (if neg then drop 1 s else s)
      in case scan_int_part s1 of
           None \<Rightarrow> None
         | Some (ip, r1) \<Rightarrow>
             (case scan_frac r1 of
                (fr, r2) \<Rightarrow>
                  (case scan_exp r2 of
                     (ex, r3) \<Rightarrow>
                       if fr = None \<and> ex = None
                       then Some (JInt ((if neg then - 1 else 1) * int (digits_value ip)), r3)
                       else Some (JFloat (Dec (decimal_value neg ip
                                    (case fr of None \<Rightarrow> [] | Some fd \<Rightarrow> fd)
                                    (case ex of None \<Rightarrow> 0 | Some e \<Rightarrow> e))), r3))))"

text \<open>\<open>dict[key] = value\<close>: a key that is present keeps its place.\<close>

fun dict_set :: "(ustring \<times> json) list \<Rightarrow> ustring \<Rightarrow> json \<Rightarrow> (ustring \<times> json) list" where
  "dict_set [] k v = [(k, v)]"
| "dict_set ((k', v') # kvs) k v =
     (if k' = k then (k, v) # kvs else (k', v') # dict_set kvs k v)"

text \<open>The values that are neither strings nor containers.\<close>

definition scan_atom :: "ustring \<Rightarrow> (json \<times> ustring) option" where
  "scan_atom s =
     (if str_startswith s (lit ''null'') then Some (JNull, drop 4 s)
      else if str_startswith s (lit ''true'') then Some (JBool True, drop 4 s)
      else if str_startswith s (lit ''false'') then Some (JBool False, drop 5 s)
      else case scan_number s of
        Some r \<Rightarrow> Some r
      | None \<Rightarrow>
          if str_startswith s (lit ''NaN'') then Some (JFloat NaN, drop 3 s)
          else if str_startswith s (lit ''Infinity'') then Some (JFloat PosInf, drop 8 s)
          else if str_startswith s (lit ''-Infinity'') then Some (JFloat NegInf, drop 9 s)
          else None)"

text \<open>\<open>scan_once\<close> with the loops of \<open>JSONArray\<close> and \<open>JSONObject\<close>. The first argument
  bounds the number of nested calls; \<open>json_loads\<close> starts with more than any input uses.\<close>

fun scan_once :: "nat \<Rightarrow> ustring \<Rightarrow> (json \<times> ustring) option"
  and scan_array :: "nat \<Rightarrow> json list \<Rightarrow> ustring \<Rightarrow> (json \<times> ustring) option"
  and scan_object :: "nat \<Rightarrow> (ustring \<times> json) list \<Rightarrow> ustring \<Rightarrow> (json \<times> ustring) option"
where
  "scan_once 0 s = None"
| "scan_once (Suc n) s =
     (case s of
        [] \<Rightarrow> None
      | c # cs \<Rightarrow>
          if c = 34 then
            (case scan_string [] cs of None \<Rightarrow> None | Some (str, r) \<Rightarrow> Some (JStr str, r))
          else if c = 123 then
            (case skip_ws cs of
               [] \<Rightarrow> None
             | d # ds \<Rightarrow>
                 if d = 125 then Some (JObj [], ds)
                 else if d = 34 then scan_object n [] (d # ds)
                 else None)
          else if c = 91 then
            (case skip_ws cs of
               [] \<Rightarrow> None
             | d # ds \<Rightarrow> if d = 93 then Some (JArr [], ds) else scan_array n [] (d # ds))
          else scan_atom s)"
| "scan_array 0 acc s = None"
| "scan_array (Suc n) acc s =
     (case scan_once n s of
        None \<Rightarrow> None
      | Some (v, r) \<Rightarrow>
          (case skip_ws r of
             [] \<Rightarrow> None
           | d # ds \<Rightarrow>
               if d = 93 then Some (JArr (acc @ [v]), ds)
               else if d = 44 then scan_array n (acc @ [v]) (skip_ws ds)
               else None))"
| "scan_object 0 acc s = None"
| "scan_object (Suc n) acc s =
     (case s of
        [] \<Rightarrow> None
      | q # cs \<Rightarrow>
          if q \<noteq> 34 then None
          else
            (case scan_string [] cs of
               None \<Rightarrow> None
             | Some (key, r) \<Rightarrow>
                 (case skip_ws r of
                    [] \<Rightarrow> None
                  | colon # r2 \<Rightarrow>
                      if colon \<noteq> 58 then None
                      else
                        (case scan_once n (skip_ws r2) of
                           None \<Rightarrow> None
                         | Some (v, r3) \<Rightarrow>
                             (case skip_ws r3 of
                                [] \<Rightarrow> None
                              | d # ds \<Rightarrow>
                                  if d = 125 then Some (JObj (dict_set acc key v), ds)
                                  else if d = 44 then scan_object n (dict_set acc key v) (skip_ws ds)
                                  else None)))))"

definition json_loads :: "ustring \<Rightarrow> json option" where
  "json_loads s =
     (case scan_once (2 * length s + 2) (skip_ws s) of
        None \<Rightarrow> None
      | Some (v, r) \<Rightarrow> if skip_ws r = [] then Some v else None)"

section \<open>Decoding the reply of the model\<close>

text \<open>
  \<open>analyze_resume_with_gpt4o\<close> from the point where the reply has arrived: the argument
  \<open>message_content\<close> is \<open>response.choices[0].message.content\<close>. The decoder \<open>loads\<close> is
  \<open>json.loads\<close>, with \<open>None\<close> for \<open>JSONDecodeError\<close>, the one exception the source
  catches around it. The variable \<open>analysis_json\<close> starts as Python's \<open>None\<close>, which is
  also what \<open>json.loads\<close> returns for \<open>null\<close>: both are \<open>JNull\<close>.
\<close>

definition fence_open :: ustring where
  "fence_open = [96, 96, 96, 106, 115, 111, 110]"

definition fence_close :: ustring where
  "fence_close = [96, 96, 96]"

text \<open>\<open>s.find(sub, start)\<close> for \<open>start \<ge> 0\<close>: the least index from \<open>start\<close> on at which
  \<open>sub\<close> begins, or \<open>-1\<close>. \<open>find_from\<close> walks the text that begins at index \<open>i\<close>.\<close>

fun find_from :: "ustring \<Rightarrow> ustring \<Rightarrow> nat \<Rightarrow> int" where
  "find_from [] sub i = (if sub = [] then int i else - 1)"
| "find_from (c # cs) sub i =
     (if str_startswith (c # cs) sub then int i else find_from cs sub (Suc i))"

definition str_find :: "ustring \<Rightarrow> ustring \<Rightarrow> nat \<Rightarrow> int" where
  "str_find s sub start =
     (if length s < start then - 1 else find_from (drop start s) sub start)"

text \<open>\<open>s[a:b]\<close> for \<open>0 \<le> a\<close> and \<open>0 \<le> b\<close>, the only indices the source slices with.\<close>

definition str_slice :: "ustring \<Rightarrow> int \<Rightarrow> int \<Rightarrow> ustring" where
  "str_slice s a b = take (nat b - nat a) (drop (nat a) s)"

text \<open>Strategy 2, under \<open>if "```json" in response_content\<close>: the text handed to
  \<open>json.loads\<close>, if \<open>json_end > json_start\<close>.\<close>

definition fenced_span :: "ustring \<Rightarrow> ustring option" where
  "fenced_span response_content =
     (let json_start = str_find response_content fence_open 0 + 7;
          json_end = str_find response_content fence_close (nat json_start)
      in if json_end > json_start
         then Some (str_strip (str_slice response_content json_start json_end))
         else None)"

text \<open>The value of \<open>analysis_json\<close> after strategy 2.\<close>

definition from_markdown :: "(ustring \<Rightarrow> json option) \<Rightarrow> ustring \<Rightarrow> json" where
  "from_markdown loads response_content =
     (if str_contains response_content fence_open then
        (case fenced_span response_content of
           None \<Rightarrow> JNull
         | Some json_content \<Rightarrow>
             (case loads json_content of None \<Rightarrow> JNull | Some v \<Rightarrow> v))
      else JNull)"

text \<open>\<open>re.search(r'\{.*\}', s, re.DOTALL)\<close>: from the first \<open>{\<close> to the last \<open>}\<close> after it.\<close>

definition brace_match :: "ustring \<Rightarrow> ustring option" where
  "brace_match s =
     (let rest = dropWhile (\<lambda>c. c \<noteq> 123) s
      in if 125 \<in> set rest
         then Some (rev (dropWhile (\<lambda>c. c \<noteq> 125) (rev rest)))
         else None)"

text \<open>The value of \<open>analysis_json\<close> after strategy 3.\<close>

definition from_regex :: "(ustring \<Rightarrow> json option) \<Rightarrow> ustring \<Rightarrow> json \<Rightarrow> json" where
  "from_regex loads response_content analysis_json =
     (if \<not> truthy analysis_json then
        (case brace_match response_content of
           None \<Rightarrow> analysis_json
         | Some m \<Rightarrow> (case loads m of None \<Rightarrow> analysis_json | Some v \<Rightarrow> v))
      else analysis_json)"

definition fallback_skill :: "string \<Rightarrow> rat \<Rightarrow> string \<Rightarrow> json" where
  "fallback_skill name score cat =
     JObj [(lit ''skill'', JStr (lit name)),
           (lit ''relevance_score'', JFloat (Dec score)),
           (lit ''category'', JStr (lit cat))]"

definition fallback_analysis :: json where
  "fallback_analysis =
     JObj [(lit ''skills'',
              JArr [fallback_skill ''Communication'' (7 / 10) ''soft'',
                    fallback_skill ''Problem Solving'' (8 / 10) ''soft'',
                    fallback_skill ''Technical Skills'' (6 / 10) ''technical'']),
           (lit ''role_match_score'', JFloat (Dec (65 / 100))),
           (lit ''strengths'',
              JArr [JStr (lit ''Professional experience''), JStr (lit ''Educational background'')]),
           (lit ''gaps'', JArr [JStr (lit ''Analysis incomplete due to response parsing issues'')]),
           (lit ''recommendations'',
              JArr [JStr (lit ''Review and update resume format''),
                    JStr (lit ''Consider professional resume review'')]),
           (lit ''summary'',
              JStr (lit ''Candidate shows potential but full analysis was limited due to technical issues.''))]"

text \<open>Strategy 4.\<close>

definition or_fallback :: "json \<Rightarrow> json" where
  "or_fallback analysis_json =
     (if \<not> truthy analysis_json then fallback_analysis else analysis_json)"

definition analyze_resume_with_gpt4o :: "(ustring \<Rightarrow> json option) \<Rightarrow> ustring \<Rightarrow> json" where
  "analyze_resume_with_gpt4o loads message_content =
     (let response_content = str_strip message_content
      in case loads response_content of
           Some v \<Rightarrow> v
         | None \<Rightarrow>
             or_fallback
               (from_regex loads response_content (from_markdown loads response_content)))"

subsection \<open>Building the record\<close>

text \<open>The dataclasses check nothing: a field holds whatever value the reply had.\<close>

record SkillMatch =
  skill :: json
  relevance_score :: json
  category :: json

record ResumeAnalysis =
  extracted_text :: ustring
  skills :: "SkillMatch list"
  role_match_score :: json
  strengths :: json
  gaps :: json
  recommendations :: json
  summary :: json

text \<open>\<open>v[key]\<close> for a string key.\<close>

fun py_getitem :: "json \<Rightarrow> ustring \<Rightarrow> exn + json" where
  "py_getitem (JObj kvs) key =
     (case map_of kvs key of None \<Rightarrow> Inl (Builtin KeyError) | Some v \<Rightarrow> Inr v)"
| "py_getitem v key = Inl (Builtin TypeError)"

text \<open>\<open>for x in v\<close>: the elements of a list, the keys of a dict, the characters of a string.\<close>

fun py_iter :: "json \<Rightarrow> exn + json list" where
  "py_iter (JArr xs) = Inr xs"
| "py_iter (JObj kvs) = Inr (map (\<lambda>kv. JStr (fst kv)) kvs)"
| "py_iter (JStr s) = Inr (map (\<lambda>c. JStr [c]) s)"
| "py_iter v = Inl (Builtin TypeError)"

text \<open>Sequencing: the first exception raised ends the computation.\<close>

definition and_then :: "exn + 'a \<Rightarrow> ('a \<Rightarrow> exn + 'b) \<Rightarrow> exn + 'b" where
  "and_then r f = (case r of Inl e \<Rightarrow> Inl e | Inr x \<Rightarrow> f x)"

definition skill_match :: "json \<Rightarrow> exn + SkillMatch" where
  "skill_match s =
     and_then (py_getitem s (lit ''skill'')) (\<lambda>a.
     and_then (py_getitem s (lit ''relevance_score'')) (\<lambda>b.
     and_then (py_getitem s (lit ''category'')) (\<lambda>c.
     Inr \<lparr>skill = a, relevance_score = b, category = c\<rparr>)))"

fun skill_matches :: "json list \<Rightarrow> exn + SkillMatch list" where
  "skill_matches [] = Inr []"
| "skill_matches (s # ss) =
     and_then (skill_match s) (\<lambda>m.
     and_then (skill_matches ss) (\<lambda>ms. Inr (m # ms)))"

text \<open>Steps 2 and 3 of \<open>analyze_resume\<close>, given the text that step 1 extracted and the
  reply of the model.\<close>

definition analyze_resume ::
  "(ustring \<Rightarrow> json option) \<Rightarrow> ustring \<Rightarrow> ustring \<Rightarrow> exn + ResumeAnalysis" where
  "analyze_resume loads text_in message_content =
     (let gpt_analysis = analyze_resume_with_gpt4o loads message_content
      in and_then (py_get gpt_analysis (lit ''skills'') (JArr [])) (\<lambda>sk.
         and_then (py_iter sk) (\<lambda>items.
         and_then (skill_matches items) (\<lambda>sks.
         and_then (py_get gpt_analysis (lit ''role_match_score'') (JFloat (Dec 0))) (\<lambda>rms.
         and_then (py_get gpt_analysis (lit ''strengths'') (JArr [])) (\<lambda>st.
         and_then (py_get gpt_analysis (lit ''gaps'') (JArr [])) (\<lambda>gp.
         and_then (py_get gpt_analysis (lit ''recommendations'') (JArr [])) (\<lambda>rc.
         and_then (py_get gpt_analysis (lit ''summary'') (JStr [])) (\<lambda>sm.
         Inr \<lparr>extracted_text = text_in, skills = sks, role_match_score = rms,
              strengths = st, gaps = gp, recommendations = rc, summary = sm\<rparr>)))))))))"

subsection \<open>The strategies as the specification names them\<close>

definition direct_parse_fails :: "(ustring \<Rightarrow> json option) \<Rightarrow> ustring \<Rightarrow> bool" where
  "direct_parse_fails loads reply \<longleftrightarrow> loads (str_strip reply) = None"

definition fenced_extraction_fails :: "(ustring \<Rightarrow> json option) \<Rightarrow> ustring \<Rightarrow> bool" where
  "fenced_extraction_fails loads reply \<longleftrightarrow>
     (if str_contains (str_strip reply) fence_open then
        (case fenced_span (str_strip reply) of None \<Rightarrow> True | Some sp \<Rightarrow> loads sp = None)
      else True)"

definition object_scan_fails :: "(ustring \<Rightarrow> json option) \<Rightarrow> ustring \<Rightarrow> bool" where
  "object_scan_fails loads reply \<longleftrightarrow>
     (case brace_match (str_strip reply) of None \<Rightarrow> True | Some m \<Rightarrow> loads m = None)"

definition all_strategies_fail :: "(ustring \<Rightarrow> json option) \<Rightarrow> ustring \<Rightarrow> bool" where
  "all_strategies_fail loads reply \<longleftrightarrow>
     direct_parse_fails loads reply \<and> fenced_extraction_fails loads reply \<and>
     object_scan_fails loads reply"

text \<open>\<open>len\<close> of a list value.\<close>

fun entries :: "json \<Rightarrow> nat" where
  "entries (JArr xs) = length xs"
| "entries v = 0"

text \<open>A decoded object as the record construction reads it.\<close>

definition field :: "(ustring \<times> json) list \<Rightarrow> string \<Rightarrow> json \<Rightarrow> json" where
  "field kvs key dflt = (case map_of kvs (lit key) of None \<Rightarrow> dflt | Some v \<Rightarrow> v)"

definition has_field :: "(ustring \<times> json) list \<Rightarrow> string \<Rightarrow> bool" where
  "has_field kvs key \<longleftrightarrow> map_of kvs (lit key) \<noteq> None"

fun skill_entry_ok :: "json \<Rightarrow> bool" where
  "skill_entry_ok (JObj kvs) \<longleftrightarrow>
     has_field kvs ''skill'' \<and> has_field kvs ''relevance_score'' \<and> has_field kvs ''category''"
| "skill_entry_ok v \<longleftrightarrow> False"

fun skill_of :: "json \<Rightarrow> SkillMatch" where
  "skill_of (JObj kvs) =
     \<lparr>skill = field kvs ''skill'' JNull,
      relevance_score = field kvs ''relevance_score'' JNull,
      category = field kvs ''category'' JNull\<rparr>"
| "skill_of v = \<lparr>skill = JNull, relevance_score = JNull, category = JNull\<rparr>"

fun list_items :: "json \<Rightarrow> json list option" where
  "list_items (JArr xs) = Some xs"
| "list_items v = None"

text \<open>The \<open>skills\<close> entry is absent, or a list of objects with the three keys.\<close>

definition skills_ok :: "(ustring \<times> json) list \<Rightarrow> bool" where
  "skills_ok kvs \<longleftrightarrow>
     (case list_items (field kvs ''skills'' (JArr [])) of
        None \<Rightarrow> False
      | Some xs \<Rightarrow> list_all skill_entry_ok xs)"

definition skill_items :: "(ustring \<times> json) list \<Rightarrow> json list" where
  "skill_items kvs =
     (case list_items (field kvs ''skills'' (JArr [])) of None \<Rightarrow> [] | Some xs \<Rightarrow> xs)"

text \<open>A double-quoted JSON string literal without escapes.\<close>

definition quoted :: "string \<Rightarrow> ustring" where
  "quoted s = [34] @ lit s @ [34]"

text \<open>The payload and the reply of the example in the specification: the reply is
  \<open>Sure! \<close>, the opening fence, a line feed, the payload, a line feed, the closing fence and
  \<open> thanks\<close>.\<close>

definition example_payload :: ustring where
  "example_payload =
     lit ''{'' @ quoted ''skills'' @ lit '': [], ''
       @ quoted ''role_match_score'' @ lit '': 0.42, ''
       @ quoted ''strengths'' @ lit '': ['' @ quoted ''x'' @ lit ''], ''
       @ quoted ''gaps'' @ lit '': [], ''
       @ quoted ''recommendations'' @ lit '': [], ''
       @ quoted ''summary'' @ lit '': '' @ quoted ''ok'' @ lit ''}''"

definition example_reply :: ustring where
  "example_reply =
     lit ''Sure! '' @ fence_open @ [10] @ example_payload @ [10] @ fence_close @ lit '' thanks''"

text \<open>A reply that is one JSON object with a single skill and a summary, and no other key.\<close>

definition partial_reply :: ustring where
  "partial_reply =
     lit ''{'' @ quoted ''skills'' @ lit '': [{'' @ quoted ''skill'' @ lit '': '' @ quoted ''SQL''
       @ lit '', '' @ quoted ''relevance_score'' @ lit '': 0.9, ''
       @ quoted ''category'' @ lit '': '' @ quoted ''technical'' @ lit ''}], ''
       @ quoted ''summary'' @ lit '': '' @ quoted ''ok'' @ lit ''}''"

text \<open>A reply in plain prose.\<close>

definition prose_reply :: ustring where
  "prose_reply = lit ''Sorry, I cannot help.''"

text \<open>The object the payload of the example denotes.\<close>

definition example_value :: json where
  "example_value =
     JObj [(lit ''skills'', JArr []),
           (lit ''role_match_score'', JFloat (Dec (42 / 100))),
           (lit ''strengths'', JArr [JStr (lit ''x'')]),
           (lit ''gaps'', JArr []),
           (lit ''recommendations'', JArr []),
           (lit ''summary'', JStr (lit ''ok''))]"

text \<open>An entry of the placeholder's skill list.\<close>

definition generic_skill :: "string \<Rightarrow> rat \<Rightarrow> string \<Rightarrow> SkillMatch" where
  "generic_skill name score cat =
     \<lparr>skill = JStr (lit name), relevance_score = JFloat (Dec score), category = JStr (lit cat)\<rparr>"

section \<open>Properties of the string operations\<close>

lemma str_startswith_iff: "str_startswith s p \<longleftrightarrow> (\<exists>post. s = p @ post)"
  by (induction s p rule: str_startswith.induct) auto

lemma str_endswith_iff: "str_endswith s p \<longleftrightarrow> (\<exists>pre. s = pre @ p)"
proof -
  have "str_endswith s p \<longleftrightarrow> (\<exists>post. rev s = rev p @ post)"
    by (simp add: str_endswith_def str_startswith_iff)
  also have "\<dots> \<longleftrightarrow> (\<exists>pre. s = pre @ p)"
  proof
    assume "\<exists>post. rev s = rev p @ post"
    then obtain post where "rev s = rev p @ post" by blast
    then have "s = rev post @ p" by (metis rev_append rev_rev_ident)
    then show "\<exists>pre. s = pre @ p" by blast
  next
    assume "\<exists>pre. s = pre @ p"
    then obtain pre where "s = pre @ p" by blast
    then have "rev s = rev p @ rev pre" by simp
    then show "\<exists>post. rev s = rev p @ post" by blast
  qed
  finally show ?thesis .
qed

lemma str_contains_iff: "str_contains s sub \<longleftrightarrow> (\<exists>pre post. s = pre @ sub @ post)"
proof (induction s)
  case Nil
  then show ?case by auto
next
  case (Cons c cs)
  show ?case
  proof
    assume "str_contains (c # cs) sub"
    then consider "str_startswith (c # cs) sub" | "str_contains cs sub" by auto
    then show "\<exists>pre post. c # cs = pre @ sub @ post"
    proof cases
      case 1
      then obtain post where "c # cs = sub @ post" by (auto simp: str_startswith_iff)
      then have "c # cs = [] @ sub @ post" by simp
      then show ?thesis by blast
    next
      case 2
      then obtain pre post where "cs = pre @ sub @ post" using Cons.IH by blast
      then have "c # cs = (c # pre) @ sub @ post" by simp
      then show ?thesis by blast
    qed
  next
    assume "\<exists>pre post. c # cs = pre @ sub @ post"
    then obtain pre post where e: "c # cs = pre @ sub @ post" by blast
    show "str_contains (c # cs) sub"
    proof (cases pre)
      case Nil
      with e have "str_startswith (c # cs) sub" by (auto simp: str_startswith_iff)
      then show ?thesis by simp
    next
      case (Cons a pre')
      with e have "cs = pre' @ sub @ post" by simp
      then have "str_contains cs sub" using Cons.IH by blast
      then show ?thesis by simp
    qed
  qed
qed

section \<open>Properties of segmentation\<close>

lemmas seg_eval = extract_structured_content_def page_step_def process_page_def process_line_def
  save_section_def on_blank_def on_header_def on_text_def section_title_def
  is_section_header_def is_likely_header_def section_keywords_def str_strip_def str_split_def
  str_endswith_def isspace_def lit_def ascii_lower_def ascii_upper_def

text \<open>
  Claim C8: segmentation never drops a non-blank input line. The code breaks it. On a page
  with the two lines \<open>John has ten years of Python.\<close> and \<open>Skills\<close>, the first line is not
  a header (six words, a final period, no keyword) and has 24 non-whitespace characters; the
  output is the title of the section \<open>SKILLS\<close> alone, 12 non-whitespace characters, so the
  line is lost. Every flush of the paragraph is under \<open>if current_section\<close>, and the paragraph
  is emptied whether or not it was saved; before the first header of a page
  \<open>current_section\<close> is \<open>None\<close>.
\<close>

theorem segmentation_drops_leading_lines:
  "\<not> (is_section_header ascii_lower (lit ''John has ten years of Python.'')
       \<or> is_likely_header (lit ''John has ten years of Python.''))
   \<and> ink (lit ''John has ten years of Python.'') = 24
   \<and> extract_structured_content ascii_lower ascii_upper demo_result
       = lit ''\<newline>\<newline>=== SKILLS ===\<newline>''
   \<and> ink (extract_structured_content ascii_lower ascii_upper demo_result) = 12
   \<and> ink (extract_structured_content ascii_lower ascii_upper demo_result)
       < ink (lit ''John has ten years of Python.'')"
  by (simp add: demo_result_def seg_eval ink_def)

text \<open>The state is reset for every page, so the same happens to a whole page without a
  header once another page has produced a section.\<close>

lemma segmentation_drops_headerless_page:
  "extract_structured_content ascii_lower ascii_upper two_page_result
     = lit ''\<newline>\<newline>=== SKILLS ===\<newline> Python and SQL.\<newline>''"
  by (simp add: two_page_result_def seg_eval)

lemma is_header_iff_spec:
  "is_section_header lower t \<or> is_likely_header t \<longleftrightarrow> spec_is_header lower t"
  unfolding spec_is_header_def is_section_header_def is_likely_header_def
    list_ex_iff str_contains_iff str_endswith_iff str_startswith_iff
  by (rule refl)

text \<open>
  Claim C9. A non-blank line (after \<open>strip\<close>) takes the header branch of the loop if and
  only if its lowercased text contains one of the section keywords as a substring, or it has
  at most 4 words, does not end with a period and does not begin with the bullet or with
  \<open>-\<close>; otherwise it takes the branch that appends it to the paragraph.
\<close>

theorem header_classification:
  assumes "str_strip line \<noteq> []"
  shows "process_line lower upper st line =
           (if spec_is_header lower (str_strip line)
            then on_header upper st (str_strip line)
            else on_text st (str_strip line))"
  using assms by (simp add: process_line_def is_header_iff_spec)

theorem header_classification_witness:
  "str_strip (lit '' Skills '') \<noteq> []
   \<and> spec_is_header ascii_lower (lit ''Skills'')
   \<and> \<not> spec_is_header ascii_lower (lit ''John has ten years of Python.'')
   \<and> process_line ascii_lower ascii_upper
        \<lparr>current_section = None, current_paragraph = [], structured_sections = []\<rparr>
        (lit '' Skills '')
      = \<lparr>current_section = Some (lit ''\<newline>\<newline>=== SKILLS ===\<newline>''), current_paragraph = [],
         structured_sections = []\<rparr>"
proof -
  let ?st = "\<lparr>current_section = None, current_paragraph = [], structured_sections = []\<rparr>"
  have s: "str_strip (lit '' Skills '') = lit ''Skills''"
    by (simp add: str_strip_def lit_def isspace_def)
  have ne: "str_strip (lit '' Skills '') \<noteq> []"
    by (simp add: s) (simp add: lit_def)
  have p: "process_line ascii_lower ascii_upper ?st (lit '' Skills '')
        = \<lparr>current_section = Some (lit ''\<newline>\<newline>=== SKILLS ===\<newline>''), current_paragraph = [],
         structured_sections = []\<rparr>"
    by (simp add: seg_eval)
  have q: "on_text ?st (lit ''Skills'') \<noteq> \<lparr>current_section = Some (lit ''\<newline>\<newline>=== SKILLS ===\<newline>''), current_paragraph = [],
         structured_sections = []\<rparr>"
    by (simp add: seg_eval)
  have h: "spec_is_header ascii_lower (lit ''Skills'')"
    using header_classification [OF ne, of ascii_lower ascii_upper ?st] p q
    by (auto simp: s split: if_splits)
  have n: "\<not> spec_is_header ascii_lower (lit ''John has ten years of Python.'')"
    unfolding is_header_iff_spec [symmetric] by (simp add: seg_eval)
  show ?thesis using ne h n p by simp
qed

section \<open>Properties of REST extraction\<close>

lemma version_loop_none:
  "(\<forall>j < length vs. status_code (posts (i + j)) \<noteq> 202) \<Longrightarrow>
     version_loop posts ep d i vs = (None, map (post_event ep d) vs)"
proof (induction vs arbitrary: i)
  case Nil
  then show ?case by simp
next
  case (Cons v vs)
  have h0: "status_code (posts i) \<noteq> 202" using Cons.prems by force
  have "\<forall>j < length vs. status_code (posts (Suc i + j)) \<noteq> 202"
    using Cons.prems by force
  then have "version_loop posts ep d (Suc i) vs = (None, map (post_event ep d) vs)"
    by (rule Cons.IH)
  with h0 show ?case by (simp add: post_event_def)
qed

lemma version_loop_some:
  "k < length vs \<Longrightarrow> status_code (posts (i + k)) = 202 \<Longrightarrow>
   (\<forall>j < k. status_code (posts (i + j)) \<noteq> 202) \<Longrightarrow>
     version_loop posts ep d i vs = (Some (posts (i + k)), map (post_event ep d) (take (Suc k) vs))"
proof (induction vs arbitrary: i k)
  case Nil
  then show ?case by simp
next
  case (Cons v vs)
  show ?case
  proof (cases k)
    case 0
    with Cons.prems show ?thesis by (simp add: post_event_def)
  next
    case (Suc k')
    have h0: "status_code (posts i) \<noteq> 202" using Cons.prems(3) Suc by force
    have a: "k' < length vs" using Cons.prems(1) Suc by simp
    have b: "status_code (posts (Suc i + k')) = 202" using Cons.prems(2) Suc by simp
    have c: "\<forall>j < k'. status_code (posts (Suc i + j)) \<noteq> 202"
    proof (intro allI impI)
      fix j assume "j < k'"
      then have "Suc j < k" using Suc by simp
      with Cons.prems(3) have "status_code (posts (i + Suc j)) \<noteq> 202" by blast
      then show "status_code (posts (Suc i + j)) \<noteq> 202" by simp
    qed
    from Cons.IH [OF a b c] h0 Suc show ?thesis by (simp add: post_event_def)
  qed
qed

lemma still_running_continue: "still_running r \<Longrightarrow> poll_once sj r = Continue"
  unfolding still_running_def poll_status_def poll_once_def
  by (cases "resp_json r"; cases "the (resp_json r)")
     (auto simp: lit_def split: if_splits option.splits)

lemma poll_events_Suc: "poll_events url (Suc m) = [Sleep 2, HttpGet url] @ poll_events url m"
  by (simp add: poll_events_def)

lemma poll_loop_events: "\<exists>m \<le> n. snd (poll_loop sj polls url i n) = poll_events url m"
proof (induction n arbitrary: i)
  case 0
  show ?case by (simp add: poll_events_def)
next
  case (Suc n)
  show ?case
  proof (cases "poll_once sj (polls i)")
    case (Return c)
    then have "snd (poll_loop sj polls url i (Suc n)) = poll_events url 1"
      by (simp add: poll_events_def)
    then show ?thesis by (intro exI [of _ 1]) simp
  next
    case (Raise e)
    then have "snd (poll_loop sj polls url i (Suc n)) = poll_events url 1"
      by (simp add: poll_events_def)
    then show ?thesis by (intro exI [of _ 1]) simp
  next
    case Continue
    from Suc.IH [of "Suc i"] obtain m where m: "m \<le> n"
      "snd (poll_loop sj polls url (Suc i) n) = poll_events url m" by blast
    with Continue have "snd (poll_loop sj polls url i (Suc n)) = poll_events url (Suc m)"
      by (cases "poll_loop sj polls url (Suc i) n") (simp add: poll_events_Suc)
    with m(1) show ?thesis by (intro exI [of _ "Suc m"]) simp
  qed
qed

lemma poll_loop_running:
  "(\<forall>j < k. poll_once sj (polls (i + j)) = Continue) \<Longrightarrow>
     poll_loop sj polls url i (k + n) =
       (fst (poll_loop sj polls url (i + k) n),
        poll_events url k @ snd (poll_loop sj polls url (i + k) n))"
proof (induction k arbitrary: i)
  case 0
  show ?case by (simp add: poll_events_def)
next
  case (Suc k)
  have h0: "poll_once sj (polls i) = Continue" using Suc.prems by force
  have "\<forall>j < k. poll_once sj (polls (Suc i + j)) = Continue"
  proof (intro allI impI)
    fix j assume "j < k"
    then have "Suc j < Suc k" by simp
    with Suc.prems have "poll_once sj (polls (i + Suc j)) = Continue" by blast
    then show "poll_once sj (polls (Suc i + j)) = Continue" by simp
  qed
  from Suc.IH [OF this] h0 show ?case
    by (cases "poll_loop sj polls url (Suc i) (k + n)") (simp add: poll_events_Suc)
qed

lemma start_analysis_accepted:
  assumes "k < 3" "status_code (posts k) = 202" "\<forall>j < k. status_code (posts j) \<noteq> 202"
  shows "start_analysis posts ep d = (posts k, map (post_event ep d) (take (Suc k) api_versions))"
proof -
  have len: "length api_versions = 3" by (simp add: api_versions_def)
  have "version_loop posts ep d 0 api_versions
          = (Some (posts (0 + k)), map (post_event ep d) (take (Suc k) api_versions))"
    by (rule version_loop_some) (use assms len in simp_all)
  then show ?thesis by (simp add: start_analysis_def)
qed

lemma start_analysis_legacy:
  assumes "\<forall>j < 3. status_code (posts j) \<noteq> 202"
  shows "start_analysis posts ep d
           = (posts 3, map (post_event ep d) api_versions @ [HttpPost (legacy_url ep) d])"
proof -
  have len: "length api_versions = 3" by (simp add: api_versions_def)
  have "version_loop posts ep d 0 api_versions = (None, map (post_event ep d) api_versions)"
    by (rule version_loop_none) (use assms len in simp)
  then show ?thesis by (simp add: start_analysis_def len)
qed

lemma rest_body_started:
  assumes "truthy_str di_key" "truthy_str di_endpoint"
    and "start_analysis posts (rstrip_slash (the di_endpoint)) pdf_data = (r, evs)"
  shows "rest_body sj di_key di_endpoint (Some pdf_data) posts polls =
           (if status_code r \<noteq> 202 then (Inl (start_error r), evs)
            else if \<not> truthy_str (operation_location r)
            then (Inl (Exception (lit ''No operation location returned'')), evs)
            else (fst (poll_loop sj polls (the (operation_location r)) 0 max_attempts),
                  evs @ snd (poll_loop sj polls (the (operation_location r)) 0 max_attempts)))"
  using assms by (simp add: rest_body_def split: prod.splits)

lemma extract_events:
  "snd (extract_text_from_pdf_rest se sj di_key di_endpoint pdf posts polls)
     = snd (rest_body sj di_key di_endpoint pdf posts polls)"
  by (simp add: extract_text_from_pdf_rest_def split: prod.splits sum.splits)

lemma extract_error:
  "fst (rest_body sj di_key di_endpoint pdf posts polls) = Inl e \<Longrightarrow>
   fst (extract_text_from_pdf_rest se sj di_key di_endpoint pdf posts polls)
     = Inl (Exception (lit ''Error extracting text from PDF: '' @ exn_str se e))"
  by (cases "rest_body sj di_key di_endpoint pdf posts polls")
     (simp add: extract_text_from_pdf_rest_def)

lemma extract_value:
  "fst (rest_body sj di_key di_endpoint pdf posts polls) = Inr c \<Longrightarrow>
   fst (extract_text_from_pdf_rest se sj di_key di_endpoint pdf posts polls) = Inr c"
  by (cases "rest_body sj di_key di_endpoint pdf posts polls")
     (simp add: extract_text_from_pdf_rest_def)

lemma is_post_post_event [simp]: "is_post (post_event ep d v)"
  by (simp add: post_event_def)

lemma filter_is_post_poll_events [simp]: "filter is_post (poll_events url m) = []"
  by (induction m) (simp_all add: poll_events_def)

lemma filter_is_post_posts [simp]: "filter is_post (map (post_event ep d) vs) = map (post_event ep d) vs"
  by (induction vs) simp_all

lemma rest_body_posts:
  assumes "truthy_str di_key" "truthy_str di_endpoint"
  shows "filter is_post (snd (rest_body sj di_key di_endpoint (Some d) posts polls))
           = snd (start_analysis posts (rstrip_slash (the di_endpoint)) d)"
proof -
  let ?ep = "rstrip_slash (the di_endpoint)"
  obtain r evs where st: "start_analysis posts ?ep d = (r, evs)" by (cases "start_analysis posts ?ep d")
  have p: "filter is_post evs = evs"
  proof (cases "\<forall>j < 3. status_code (posts j) \<noteq> 202")
    case True
    from start_analysis_legacy [OF True, of ?ep d] st show ?thesis by auto
  next
    case False
    then obtain k where k: "k < 3" "status_code (posts k) = 202" by blast
    define k0 where "k0 = (LEAST k. k < 3 \<and> status_code (posts k) = 202)"
    have a: "k0 < 3 \<and> status_code (posts k0) = 202"
      unfolding k0_def by (rule LeastI [of _ k]) (use k in simp)
    have b: "\<forall>j < k0. status_code (posts j) \<noteq> 202"
    proof (intro allI impI)
      fix j assume j: "j < k0"
      show "status_code (posts j) \<noteq> 202"
      proof
        assume "status_code (posts j) = 202"
        with j a have "j < 3 \<and> status_code (posts j) = 202" by simp
        then have "k0 \<le> j" unfolding k0_def by (rule Least_le)
        with j show False by simp
      qed
    qed
    from start_analysis_accepted [of k0 posts ?ep d] a b st show ?thesis by auto
  qed
  obtain m where m: "snd (poll_loop sj polls (the (operation_location r)) 0 max_attempts)
      = poll_events (the (operation_location r)) m"
    using poll_loop_events [of max_attempts sj polls "the (operation_location r)" 0] by blast
  show ?thesis
    using rest_body_started [OF assms st, of sj polls] p m st by simp
qed

lemma count_list_filter: "P e \<Longrightarrow> count_list (filter P xs) e = count_list xs e"
  by (induction xs) auto

lemma legacy_not_version: "HttpPost (legacy_url ep) d \<noteq> post_event ep d v"
  by (simp add: legacy_url_def post_event_def analyze_url_def lit_def)

lemma count_legacy_versions: "count_list (map (post_event ep d) vs) (HttpPost (legacy_url ep) d) = 0"
  by (induction vs) (simp_all add: legacy_not_version [symmetric])

text \<open>
  Claim C2. With credentials and a readable file, the \<open>POST\<close> requests of REST extraction
  are the requests for the API versions \<open>2024-02-29-preview\<close>, \<open>2023-07-31\<close>,
  \<open>2022-08-31\<close> in this order, up to and including the first one answered with status 202
  and none after it; if none of the three is answered with 202, they are followed by exactly
  one request to the legacy Form Recognizer endpoint, and if that one is not answered with
  202 either, extraction fails without any further request.
\<close>

theorem versions_newest_first_then_legacy:
  assumes "truthy_str di_key" and "truthy_str di_endpoint"
  shows "api_versions = [lit ''2024-02-29-preview'', lit ''2023-07-31'', lit ''2022-08-31'']
    \<and> (\<forall>k < 3. status_code (posts k) = 202 \<and> (\<forall>j < k. status_code (posts j) \<noteq> 202) \<longrightarrow>
          filter is_post
            (snd (extract_text_from_pdf_rest se sj di_key di_endpoint (Some d) posts polls))
          = map (post_event (rstrip_slash (the di_endpoint)) d) (take (Suc k) api_versions))
    \<and> ((\<forall>j < 3. status_code (posts j) \<noteq> 202) \<longrightarrow>
          filter is_post
            (snd (extract_text_from_pdf_rest se sj di_key di_endpoint (Some d) posts polls))
          = map (post_event (rstrip_slash (the di_endpoint)) d) api_versions
              @ [HttpPost (legacy_url (rstrip_slash (the di_endpoint))) d]
          \<and> count_list
              (snd (extract_text_from_pdf_rest se sj di_key di_endpoint (Some d) posts polls))
              (HttpPost (legacy_url (rstrip_slash (the di_endpoint))) d) = 1
          \<and> (status_code (posts 3) \<noteq> 202 \<longrightarrow>
               extract_text_from_pdf_rest se sj di_key di_endpoint (Some d) posts polls
               = (Inl (Exception (lit ''Error extracting text from PDF: ''
                                    @ exn_str se (start_error (posts 3)))),
                  map (post_event (rstrip_slash (the di_endpoint)) d) api_versions
                    @ [HttpPost (legacy_url (rstrip_slash (the di_endpoint))) d])))"
proof -
  let ?ep = "rstrip_slash (the di_endpoint)"
  let ?run = "extract_text_from_pdf_rest se sj di_key di_endpoint (Some d) posts polls"
  let ?leg = "HttpPost (legacy_url ?ep) d"
  have posts: "filter is_post (snd ?run) = snd (start_analysis posts ?ep d)"
    by (simp add: extract_events rest_body_posts [OF assms])
  have v: "api_versions = [lit ''2024-02-29-preview'', lit ''2023-07-31'', lit ''2022-08-31'']"
    by (simp add: api_versions_def)
  have a: "filter is_post (snd ?run) = map (post_event ?ep d) (take (Suc k) api_versions)"
    if "k < 3" "status_code (posts k) = 202" "\<forall>j < k. status_code (posts j) \<noteq> 202" for k
    using start_analysis_accepted [OF that, of ?ep d] posts by simp
  have b: "filter is_post (snd ?run) = map (post_event ?ep d) api_versions @ [?leg]"
      and c: "count_list (snd ?run) ?leg = 1"
      and e: "status_code (posts 3) \<noteq> 202 \<longrightarrow>
               ?run = (Inl (Exception (lit ''Error extracting text from PDF: ''
                                    @ exn_str se (start_error (posts 3)))),
                  map (post_event ?ep d) api_versions @ [?leg])"
    if h: "\<forall>j < 3. status_code (posts j) \<noteq> 202"
  proof -
    have st: "start_analysis posts ?ep d = (posts 3, map (post_event ?ep d) api_versions @ [?leg])"
      by (rule start_analysis_legacy [OF h])
    show b: "filter is_post (snd ?run) = map (post_event ?ep d) api_versions @ [?leg]"
      using st posts by simp
    have "count_list (filter is_post (snd ?run)) ?leg = 1"
      unfolding b by (simp add: count_legacy_versions)
    then show "count_list (snd ?run) ?leg = 1"
      by (simp add: count_list_filter)
    show "status_code (posts 3) \<noteq> 202 \<longrightarrow>
               ?run = (Inl (Exception (lit ''Error extracting text from PDF: ''
                                    @ exn_str se (start_error (posts 3)))),
                  map (post_event ?ep d) api_versions @ [?leg])"
    proof
      assume n: "status_code (posts 3) \<noteq> 202"
      have "rest_body sj di_key di_endpoint (Some d) posts polls
              = (Inl (start_error (posts 3)), map (post_event ?ep d) api_versions @ [?leg])"
        using rest_body_started [OF assms st, of sj polls] n by simp
      then show "?run = (Inl (Exception (lit ''Error extracting text from PDF: ''
                                    @ exn_str se (start_error (posts 3)))),
                  map (post_event ?ep d) api_versions @ [?leg])"
        by (simp add: extract_text_from_pdf_rest_def)
    qed
  qed
  show ?thesis using v a b c e by blast
qed

theorem versions_newest_first_then_legacy_witness:
  "truthy_str (Some (lit ''key'')) \<and> truthy_str (Some (lit ''https://x/''))
   \<and> status_code (plain_response 404 ''no'') \<noteq> 202
   \<and> filter is_post
        (snd (extract_text_from_pdf_rest no_str_error no_str_json (Some (lit ''key''))
               (Some (lit ''https://x/'')) (Some (lit ''pdf''))
               (\<lambda>i. plain_response 404 ''no'') (\<lambda>i. plain_response 404 ''no'')))
     = [HttpPost (lit ''https://x/documentintelligence/documentModels/prebuilt-read:analyze?api-version=2024-02-29-preview'') (lit ''pdf''),
        HttpPost (lit ''https://x/documentintelligence/documentModels/prebuilt-read:analyze?api-version=2023-07-31'') (lit ''pdf''),
        HttpPost (lit ''https://x/documentintelligence/documentModels/prebuilt-read:analyze?api-version=2022-08-31'') (lit ''pdf''),
        HttpPost (lit ''https://x/formrecognizer/documentModels/prebuilt-read:analyze?api-version=2022-08-31'') (lit ''pdf'')]
   \<and> 1 < (3::nat) \<and> status_code ((\<lambda>i. if i = 1 then accepted_response else plain_response 404 ''no'') 1) = 202
   \<and> filter is_post
        (snd (extract_text_from_pdf_rest no_str_error no_str_json (Some (lit ''key''))
               (Some (lit ''https://x/'')) (Some (lit ''pdf''))
               (\<lambda>i. if i = 1 then accepted_response else plain_response 404 ''no'')
               (\<lambda>i. plain_response 404 ''no'')))
     = [HttpPost (lit ''https://x/documentintelligence/documentModels/prebuilt-read:analyze?api-version=2024-02-29-preview'') (lit ''pdf''),
        HttpPost (lit ''https://x/documentintelligence/documentModels/prebuilt-read:analyze?api-version=2023-07-31'') (lit ''pdf'')]"
proof -
  have k: "truthy_str (Some (lit ''key''))" and e: "truthy_str (Some (lit ''https://x/''))"
    by (simp_all add: lit_def)
  have n: "\<forall>j < 3. status_code (plain_response 404 ''no'') \<noteq> 202"
    by (simp add: plain_response_def)
  have ep: "rstrip_slash (the (Some (lit ''https://x/''))) = lit ''https://x''"
    by (simp add: rstrip_slash_def lit_def)
  note t1 = versions_newest_first_then_legacy [OF k e, of "\<lambda>i. plain_response 404 ''no''"
      no_str_error no_str_json "lit ''pdf''" "\<lambda>i. plain_response 404 ''no''"]
  note t2 = versions_newest_first_then_legacy [OF k e,
      of "\<lambda>i. if i = 1 then accepted_response else plain_response 404 ''no''"
      no_str_error no_str_json "lit ''pdf''" "\<lambda>i. plain_response 404 ''no''"]
  have a: "filter is_post
        (snd (extract_text_from_pdf_rest no_str_error no_str_json (Some (lit ''key''))
               (Some (lit ''https://x/'')) (Some (lit ''pdf''))
               (\<lambda>i. plain_response 404 ''no'') (\<lambda>i. plain_response 404 ''no'')))
     = map (post_event (lit ''https://x'') (lit ''pdf'')) api_versions
         @ [HttpPost (legacy_url (lit ''https://x'')) (lit ''pdf'')]"
    using t1 n by (simp only: ep) blast
  have s1: "status_code ((\<lambda>i. if i = 1 then accepted_response else plain_response 404 ''no'') (1::nat)) = 202"
    by (simp add: accepted_response_def)
  have s0: "\<forall>j < (1::nat). status_code ((\<lambda>i. if i = 1 then accepted_response else plain_response 404 ''no'') j) \<noteq> 202"
    by (simp add: plain_response_def)
  have b: "filter is_post
        (snd (extract_text_from_pdf_rest no_str_error no_str_json (Some (lit ''key''))
               (Some (lit ''https://x/'')) (Some (lit ''pdf''))
               (\<lambda>i. if i = 1 then accepted_response else plain_response 404 ''no'')
               (\<lambda>i. plain_response 404 ''no'')))
     = map (post_event (lit ''https://x'') (lit ''pdf'')) (take (Suc 1) api_versions)"
    using t2 s1 s0 by (simp only: ep)
  have n': "status_code (plain_response 404 ''no'') \<noteq> 202"
    by (simp add: plain_response_def)
  show ?thesis
    using k e n' s1
    by (simp only: a b)
       (simp add: api_versions_def post_event_def analyze_url_def legacy_url_def lit_def)
qed

lemma version_loop_posts:
  "filter is_post (snd (version_loop posts ep d i vs)) = snd (version_loop posts ep d i vs)"
proof (induction vs arbitrary: i)
  case Nil
  show ?case by simp
next
  case (Cons v vs)
  obtain res evs where e: "version_loop posts ep d (Suc i) vs = (res, evs)"
    by (cases "version_loop posts ep d (Suc i) vs")
  with Cons.IH [of "Suc i"] have "filter is_post evs = evs" by simp
  with e show ?case by (simp add: Let_def)
qed

lemma start_analysis_posts:
  "filter is_post (snd (start_analysis posts ep d)) = snd (start_analysis posts ep d)"
proof (cases "version_loop posts ep d 0 api_versions")
  case (Pair res evs)
  have "filter is_post evs = evs" using version_loop_posts [of posts ep d 0 api_versions] Pair by simp
  with Pair show ?thesis by (cases res) (simp_all add: start_analysis_def)
qed

lemma rest_body_events:
  "\<exists>m \<le> max_attempts. \<exists>url ps. filter is_post ps = ps
     \<and> snd (rest_body sj di_key di_endpoint pdf posts polls) = ps @ poll_events url m"
proof (cases "truthy_str di_key \<and> truthy_str di_endpoint \<and> pdf \<noteq> None")
  case False
  then have "snd (rest_body sj di_key di_endpoint pdf posts polls) = [] @ poll_events [] 0"
    by (auto simp: rest_body_def poll_events_def)
  then show ?thesis by (metis filter.simps(1) le0)
next
  case True
  then obtain d where d: "pdf = Some d" by auto
  let ?ep = "rstrip_slash (the di_endpoint)"
  obtain r evs where st: "start_analysis posts ?ep d = (r, evs)"
    by (cases "start_analysis posts ?ep d")
  have p: "filter is_post evs = evs" using start_analysis_posts [of posts ?ep d] st by simp
  let ?url = "the (operation_location r)"
  obtain m where m: "m \<le> max_attempts"
      "snd (poll_loop sj polls ?url 0 max_attempts) = poll_events ?url m"
    using poll_loop_events [of max_attempts sj polls ?url 0] by blast
  have "snd (rest_body sj di_key di_endpoint pdf posts polls) = evs @ poll_events ?url 0
      \<or> snd (rest_body sj di_key di_endpoint pdf posts polls) = evs @ poll_events ?url m"
    using rest_body_started [of di_key di_endpoint posts d r evs sj polls] True st d m
    by (auto simp: poll_events_def)
  with p m(1) show ?thesis by (metis le0)
qed

lemma extract_polling:
  assumes "truthy_str di_key" "truthy_str di_endpoint"
    and "start_analysis posts (rstrip_slash (the di_endpoint)) d = (r, evs)"
    and "status_code r = 202" "operation_location r = Some url" "url \<noteq> []"
    and "poll_loop sj polls url 0 max_attempts = (Inl e, evs')"
  shows "extract_text_from_pdf_rest se sj di_key di_endpoint (Some d) posts polls
           = (Inl (Exception (lit ''Error extracting text from PDF: '' @ exn_str se e)), evs @ evs')"
  using rest_body_started [OF assms(1-3), of sj polls] assms(4-7)
  by (simp add: extract_text_from_pdf_rest_def)

lemma poll_loop_non_200:
  "status_code (polls i) \<noteq> 200 \<Longrightarrow>
   poll_loop sj polls url i (Suc n) =
     (Inl (Exception (lit ''Failed to get results: '' @ str_nat (status_code (polls i))
                        @ lit '' - '' @ resp_text (polls i))), [Sleep 2, HttpGet url])"
  by (simp add: poll_once_def)

lemma poll_events_snoc: "poll_events url (Suc k) = poll_events url k @ [Sleep 2, HttpGet url]"
  by (induction k) (simp_all add: poll_events_def)

lemma poll_loop_running_then_non_200:
  assumes "\<forall>j < k. still_running (polls (i + j))" and "status_code (polls (i + k)) \<noteq> 200"
  shows "poll_loop sj polls url i (k + Suc n) =
     (Inl (Exception (lit ''Failed to get results: '' @ str_nat (status_code (polls (i + k)))
                        @ lit '' - '' @ resp_text (polls (i + k)))), poll_events url (Suc k))"
proof -
  have "\<forall>j < k. poll_once sj (polls (i + j)) = Continue"
    using assms(1) still_running_continue by blast
  then have "poll_loop sj polls url i (k + Suc n) =
       (fst (poll_loop sj polls url (i + k) (Suc n)),
        poll_events url k @ snd (poll_loop sj polls url (i + k) (Suc n)))"
    by (rule poll_loop_running)
  also have "poll_loop sj polls url (i + k) (Suc n) =
     (Inl (Exception (lit ''Failed to get results: '' @ str_nat (status_code (polls (i + k)))
                        @ lit '' - '' @ resp_text (polls (i + k)))), [Sleep 2, HttpGet url])"
    using assms(2) by (rule poll_loop_non_200)
  finally show ?thesis by (simp only: fst_conv snd_conv poll_events_snoc)
qed

lemma poll_loop_timeout:
  assumes "\<forall>j < n. still_running (polls (i + j))"
  shows "poll_loop sj polls url i n = (Inl (Exception (lit ''Analysis timed out'')), poll_events url n)"
proof -
  have "\<forall>j < n. poll_once sj (polls (i + j)) = Continue"
    using assms still_running_continue by blast
  from poll_loop_running [OF this, of url 0] show ?thesis by simp
qed

text \<open>
  Claim C3. Whatever the responses, REST extraction polls at most 30 times, and each poll is a
  wait of 2 seconds followed by the \<open>GET\<close>: its events are \<open>POST\<close> requests followed by
  \<open>poll_events url m\<close> for some \<open>m \<le> 30\<close>. If the analysis was accepted and the 30 poll
  responses all say \<open>running\<close> or \<open>notStarted\<close>, all 30 polls are made and extraction fails
  with the time-out error.
\<close>

theorem polling_bounded_then_timeout:
  "(\<exists>m \<le> 30. \<exists>url ps. filter is_post ps = ps
      \<and> snd (extract_text_from_pdf_rest se sj di_key di_endpoint pdf posts polls)
          = ps @ poll_events url m)
   \<and> (truthy_str di_key \<and> truthy_str di_endpoint \<and> pdf = Some d
       \<and> start_analysis posts (rstrip_slash (the di_endpoint)) d = (r, evs)
       \<and> status_code r = 202 \<and> operation_location r = Some loc \<and> loc \<noteq> []
       \<and> (\<forall>i < 30. still_running (polls i))
      \<longrightarrow> extract_text_from_pdf_rest se sj di_key di_endpoint pdf posts polls
            = (Inl (Exception (lit ''Error extracting text from PDF: Analysis timed out'')),
               evs @ poll_events loc 30))"
proof
  show "\<exists>m \<le> 30. \<exists>url ps. filter is_post ps = ps
      \<and> snd (extract_text_from_pdf_rest se sj di_key di_endpoint pdf posts polls)
          = ps @ poll_events url m"
    using rest_body_events [of sj di_key di_endpoint pdf posts polls]
    by (simp add: extract_events max_attempts_def)
next
  show "truthy_str di_key \<and> truthy_str di_endpoint \<and> pdf = Some d
       \<and> start_analysis posts (rstrip_slash (the di_endpoint)) d = (r, evs)
       \<and> status_code r = 202 \<and> operation_location r = Some loc \<and> loc \<noteq> []
       \<and> (\<forall>i < 30. still_running (polls i))
      \<longrightarrow> extract_text_from_pdf_rest se sj di_key di_endpoint pdf posts polls
            = (Inl (Exception (lit ''Error extracting text from PDF: Analysis timed out'')),
               evs @ poll_events loc 30)"
  proof (intro impI, elim conjE)
    assume h: "truthy_str di_key" "truthy_str di_endpoint" "pdf = Some d"
      "start_analysis posts (rstrip_slash (the di_endpoint)) d = (r, evs)"
      "status_code r = 202" "operation_location r = Some loc" "loc \<noteq> []"
      and run: "\<forall>i < 30. still_running (polls i)"
    have "\<forall>j < max_attempts. still_running (polls (0 + j))"
      using run by (simp add: max_attempts_def)
    then have "poll_loop sj polls loc 0 max_attempts
        = (Inl (Exception (lit ''Analysis timed out'')), poll_events loc max_attempts)"
      by (rule poll_loop_timeout)
    from extract_polling [OF h(1,2,4,5,6,7) this, of se] h(3)
    show "extract_text_from_pdf_rest se sj di_key di_endpoint pdf posts polls
            = (Inl (Exception (lit ''Error extracting text from PDF: Analysis timed out'')),
               evs @ poll_events loc 30)"
      by (simp add: max_attempts_def lit_def)
  qed
qed

lemma demo_endpoint: "rstrip_slash (the (Some (lit ''https://x/''))) = lit ''https://x''"
  by (simp add: rstrip_slash_def lit_def)

lemma demo_creds: "truthy_str (Some (lit ''key''))" "truthy_str (Some (lit ''https://x/''))"
  by (simp_all add: lit_def)

lemma demo_accepted:
  "start_analysis (\<lambda>i. accepted_response) (lit ''https://x'') (lit ''pdf'')
     = (accepted_response,
        [HttpPost (lit ''https://x/documentintelligence/documentModels/prebuilt-read:analyze?api-version=2024-02-29-preview'') (lit ''pdf'')])"
  by (simp add: start_analysis_def api_versions_def accepted_response_def analyze_url_def lit_def)

lemma demo_running: "still_running (status_response ''running'')"
  by (simp add: still_running_def poll_status_def status_response_def lit_def)

theorem polling_bounded_then_timeout_witness:
  "extract_text_from_pdf_rest no_str_error no_str_json (Some (lit ''key''))
     (Some (lit ''https://x/'')) (Some (lit ''pdf''))
     (\<lambda>i. accepted_response) (\<lambda>i. status_response ''running'')
   = (Inl (Exception (lit ''Error extracting text from PDF: Analysis timed out'')),
      [HttpPost (lit ''https://x/documentintelligence/documentModels/prebuilt-read:analyze?api-version=2024-02-29-preview'') (lit ''pdf'')]
        @ poll_events (lit ''https://x/op/1'') 30)"
proof -
  have op: "status_code accepted_response = 202"
    "operation_location accepted_response = Some (lit ''https://x/op/1'')"
    "lit ''https://x/op/1'' \<noteq> []"
    by (simp_all add: accepted_response_def lit_def)
  have st: "start_analysis (\<lambda>i. accepted_response) (rstrip_slash (the (Some (lit ''https://x/'')))) (lit ''pdf'')
     = (accepted_response,
        [HttpPost (lit ''https://x/documentintelligence/documentModels/prebuilt-read:analyze?api-version=2024-02-29-preview'') (lit ''pdf'')])"
    by (simp only: demo_endpoint demo_accepted)
  have run: "\<forall>i < 30. still_running ((\<lambda>i. status_response ''running'') i)"
    by (simp add: demo_running)
  from polling_bounded_then_timeout [of no_str_error no_str_json "Some (lit ''key'')"
      "Some (lit ''https://x/'')" "Some (lit ''pdf'')" "\<lambda>i. accepted_response"
      "\<lambda>i. status_response ''running''" "lit ''pdf''" accepted_response _ "lit ''https://x/op/1''"]
    demo_creds op st run
  show ?thesis by blast
qed

text \<open>
  Claim C10. A poll response whose HTTP status is not 200 ends the polling loop with an error
  at once, whatever the number \<open>n\<close> of attempts left: after \<open>k\<close> polls answered
  \<open>running\<close> or \<open>notStarted\<close>, the loop makes exactly one more poll and no retry, and the
  extraction call fails with that error.
\<close>

theorem poll_non_200_fails_at_once:
  assumes "\<forall>j < k. still_running (polls (i + j))" and "status_code (polls (i + k)) \<noteq> 200"
  shows "poll_loop sj polls url i (k + Suc n)
           = (Inl (Exception (lit ''Failed to get results: '' @ str_nat (status_code (polls (i + k)))
                                @ lit '' - '' @ resp_text (polls (i + k)))),
              poll_events url (Suc k))
    \<and> (truthy_str di_key \<and> truthy_str di_endpoint
        \<and> start_analysis posts (rstrip_slash (the di_endpoint)) d = (r, evs)
        \<and> status_code r = 202 \<and> operation_location r = Some url \<and> url \<noteq> []
        \<and> i = 0 \<and> k + Suc n = max_attempts
       \<longrightarrow> extract_text_from_pdf_rest se sj di_key di_endpoint (Some d) posts polls
             = (Inl (Exception (lit ''Error extracting text from PDF: Failed to get results: ''
                                  @ str_nat (status_code (polls k)) @ lit '' - ''
                                  @ resp_text (polls k))),
                evs @ poll_events url (Suc k)))"
proof
  show loop: "poll_loop sj polls url i (k + Suc n)
           = (Inl (Exception (lit ''Failed to get results: '' @ str_nat (status_code (polls (i + k)))
                                @ lit '' - '' @ resp_text (polls (i + k)))),
              poll_events url (Suc k))"
    using assms by (rule poll_loop_running_then_non_200)
  show "truthy_str di_key \<and> truthy_str di_endpoint
        \<and> start_analysis posts (rstrip_slash (the di_endpoint)) d = (r, evs)
        \<and> status_code r = 202 \<and> operation_location r = Some url \<and> url \<noteq> []
        \<and> i = 0 \<and> k + Suc n = max_attempts
       \<longrightarrow> extract_text_from_pdf_rest se sj di_key di_endpoint (Some d) posts polls
             = (Inl (Exception (lit ''Error extracting text from PDF: Failed to get results: ''
                                  @ str_nat (status_code (polls k)) @ lit '' - ''
                                  @ resp_text (polls k))),
                evs @ poll_events url (Suc k))"
  proof (intro impI, elim conjE)
    assume h: "truthy_str di_key" "truthy_str di_endpoint"
      "start_analysis posts (rstrip_slash (the di_endpoint)) d = (r, evs)"
      "status_code r = 202" "operation_location r = Some url" "url \<noteq> []"
      and i: "i = 0" and n: "k + Suc n = max_attempts"
    have "poll_loop sj polls url 0 max_attempts
           = (Inl (Exception (lit ''Failed to get results: '' @ str_nat (status_code (polls k))
                                @ lit '' - '' @ resp_text (polls k))),
              poll_events url (Suc k))"
      using loop unfolding i n by (simp only: add_0)
    from extract_polling [OF h this, of se]
    show "extract_text_from_pdf_rest se sj di_key di_endpoint (Some d) posts polls
             = (Inl (Exception (lit ''Error extracting text from PDF: Failed to get results: ''
                                  @ str_nat (status_code (polls k)) @ lit '' - ''
                                  @ resp_text (polls k))),
                evs @ poll_events url (Suc k))"
      by (simp add: lit_def)
  qed
qed

lemma demo_broken_polls:
  "\<forall>j < 2. still_running ((\<lambda>i::nat. if i < 2 then status_response ''running'' else plain_response 500 ''boom'') (0 + j))"
  by (simp add: demo_running)

theorem poll_non_200_fails_at_once_witness:
  "status_code (plain_response 500 ''boom'') \<noteq> 200
   \<and> extract_text_from_pdf_rest no_str_error no_str_json (Some (lit ''key''))
       (Some (lit ''https://x/'')) (Some (lit ''pdf'')) (\<lambda>i. accepted_response)
       (\<lambda>i. if i < 2 then status_response ''running'' else plain_response 500 ''boom'')
     = (Inl (Exception (lit ''Error extracting text from PDF: Failed to get results: 500 - boom'')),
        [HttpPost (lit ''https://x/documentintelligence/documentModels/prebuilt-read:analyze?api-version=2024-02-29-preview'') (lit ''pdf''),
         Sleep 2, HttpGet (lit ''https://x/op/1''), Sleep 2, HttpGet (lit ''https://x/op/1''),
         Sleep 2, HttpGet (lit ''https://x/op/1'')])"
proof -
  let ?polls = "\<lambda>i::nat. if i < 2 then status_response ''running'' else plain_response 500 ''boom''"
  have bad: "status_code (?polls (0 + 2)) \<noteq> 200" by (simp add: plain_response_def)
  have op: "status_code accepted_response = 202"
    "operation_location accepted_response = Some (lit ''https://x/op/1'')"
    "lit ''https://x/op/1'' \<noteq> []"
    by (simp_all add: accepted_response_def lit_def)
  have st: "start_analysis (\<lambda>i. accepted_response) (rstrip_slash (the (Some (lit ''https://x/'')))) (lit ''pdf'')
     = (accepted_response,
        [HttpPost (lit ''https://x/documentintelligence/documentModels/prebuilt-read:analyze?api-version=2024-02-29-preview'') (lit ''pdf'')])"
    by (simp only: demo_endpoint demo_accepted)
  have n: "2 + Suc 27 = max_attempts" by (simp add: max_attempts_def)
  from poll_non_200_fails_at_once [of 2 ?polls 0, OF demo_broken_polls bad,
      where sj = no_str_json and n = 27 and di_key = "Some (lit ''key'')"
        and di_endpoint = "Some (lit ''https://x/'')" and posts = "\<lambda>i. accepted_response"
        and d = "lit ''pdf''" and r = accepted_response and url = "lit ''https://x/op/1''"
        and se = no_str_error]
    demo_creds op st n
  have "extract_text_from_pdf_rest no_str_error no_str_json (Some (lit ''key''))
       (Some (lit ''https://x/'')) (Some (lit ''pdf'')) (\<lambda>i. accepted_response) ?polls
     = (Inl (Exception (lit ''Error extracting text from PDF: Failed to get results: ''
                                  @ str_nat (status_code (?polls 2)) @ lit '' - ''
                                  @ resp_text (?polls 2))),
        [HttpPost (lit ''https://x/documentintelligence/documentModels/prebuilt-read:analyze?api-version=2024-02-29-preview'') (lit ''pdf'')]
          @ poll_events (lit ''https://x/op/1'') (Suc 2))"
    by blast
  then show ?thesis
    by (simp add: plain_response_def poll_events_def str_nat.simps lit_def numeral_2_eq_2)
qed

lemma extract_all_refused:
  assumes "truthy_str di_key" "truthy_str di_endpoint"
    and "\<forall>j < 3. status_code (posts j) \<noteq> 202" and "status_code (posts 3) \<noteq> 202"
  shows "extract_text_from_pdf_rest se sj di_key di_endpoint (Some d) posts polls
    = (Inl (Exception (lit ''Error extracting text from PDF: '' @ exn_str se (start_error (posts 3)))),
       map (post_event (rstrip_slash (the di_endpoint)) d) api_versions
         @ [HttpPost (legacy_url (rstrip_slash (the di_endpoint))) d])"
  using rest_body_started [OF assms(1,2) start_analysis_legacy [OF assms(3)],
      where sj = sj and polls = polls] assms(4)
  by (simp add: extract_text_from_pdf_rest_def)

text \<open>
  Claim C7, as amended. When none of the three version requests and not the legacy request
  either is answered with status 202, extraction fails with one error whose message gives
  the status code and the response text of the last request only, the legacy one (behind
  \<open>Authentication failed\<close> for status 401, \<open>Failed to start analysis\<close> otherwise).
\<close>

theorem start_failure_reports_last_response:
  assumes "truthy_str di_key" "truthy_str di_endpoint"
    and "\<forall>j < 3. status_code (posts j) \<noteq> 202" and "status_code (posts 3) \<noteq> 202"
  shows "extract_text_from_pdf_rest se sj di_key di_endpoint (Some d) posts polls
    = (Inl (Exception (lit ''Error extracting text from PDF: ''
          @ (if status_code (posts 3) = 401
             then lit ''Authentication failed. Please check your Azure Document Intelligence key and endpoint.\<newline>''
             else lit ''Failed to start analysis: '')
          @ lit ''Status: '' @ str_nat (status_code (posts 3))
          @ lit '', Response: '' @ resp_text (posts 3))),
       map (post_event (rstrip_slash (the di_endpoint)) d) api_versions
         @ [HttpPost (legacy_url (rstrip_slash (the di_endpoint))) d])"
  using extract_all_refused [OF assms, where se = se and sj = sj and d = d and polls = polls]
  by (simp add: start_error_def Let_def)

lemmas rest_eval = extract_text_from_pdf_rest_def rest_body_def start_analysis_def
  api_versions_def analyze_url_def legacy_url_def start_error_def poll_once_def
  rstrip_slash_def post_event_def plain_response_def accepted_response_def
  status_response_def no_str_error_def no_str_json_def refusing_posts_def lit_def

theorem start_failure_reports_last_response_witness:
  "truthy_str (Some (lit ''key'')) \<and> truthy_str (Some (lit ''https://x/''))
   \<and> status_code (refusing_posts 0) \<noteq> 202 \<and> status_code (refusing_posts 1) \<noteq> 202
   \<and> status_code (refusing_posts 2) \<noteq> 202 \<and> status_code (refusing_posts 3) \<noteq> 202
   \<and> fst (extract_text_from_pdf_rest no_str_error no_str_json (Some (lit ''key''))
            (Some (lit ''https://x/'')) (Some (lit ''pdf'')) refusing_posts
            (\<lambda>i. plain_response 404 ''no''))
     = Inl (Exception (lit ''Error extracting text from PDF: Failed to start analysis: Status: 400, Response: d''))"
proof -
  have s: "status_code (refusing_posts 0) \<noteq> 202" "status_code (refusing_posts 1) \<noteq> 202"
    "status_code (refusing_posts 2) \<noteq> 202" "status_code (refusing_posts 3) \<noteq> 202"
    by (simp_all add: refusing_posts_def plain_response_def)
  have all: "\<forall>j < 3. status_code (refusing_posts j) \<noteq> 202"
    by (simp add: refusing_posts_def plain_response_def)
  have last: "status_code (refusing_posts 3) = 400" "resp_text (refusing_posts 3) = lit ''d''"
    by (simp_all add: refusing_posts_def plain_response_def)
  from start_failure_reports_last_response [OF demo_creds all s(4),
      where se = no_str_error and sj = no_str_json and d = "lit ''pdf''"
        and polls = "\<lambda>i. plain_response 404 ''no''"]
  have "fst (extract_text_from_pdf_rest no_str_error no_str_json (Some (lit ''key''))
            (Some (lit ''https://x/'')) (Some (lit ''pdf'')) refusing_posts
            (\<lambda>i. plain_response 404 ''no''))
     = Inl (Exception (lit ''Error extracting text from PDF: Failed to start analysis: Status: 400, Response: d''))"
    by (simp add: last str_nat.simps lit_def)
  with demo_creds s show ?thesis by simp
qed

text \<open>
  Claim C7, as stated, fails. With the answers 404, 500, 503 to the three versions and 400 to
  the legacy request, the error raised is \<open>Failed to start analysis: Status: 400,
  Response: d\<close>: it names no API version (not \<open>2024-02-29-preview\<close>) and not the status 404
  of the first attempt.
\<close>

theorem aggregate_error_names_only_last:
  "extract_text_from_pdf_rest no_str_error no_str_json (Some (lit ''key''))
     (Some (lit ''https://x/'')) (Some (lit ''pdf'')) refusing_posts (\<lambda>i. plain_response 404 ''no'')
   = (Inl (Exception (lit ''Error extracting text from PDF: Failed to start analysis: Status: 400, Response: d'')),
      [HttpPost (lit ''https://x/documentintelligence/documentModels/prebuilt-read:analyze?api-version=2024-02-29-preview'') (lit ''pdf''),
       HttpPost (lit ''https://x/documentintelligence/documentModels/prebuilt-read:analyze?api-version=2023-07-31'') (lit ''pdf''),
       HttpPost (lit ''https://x/documentintelligence/documentModels/prebuilt-read:analyze?api-version=2022-08-31'') (lit ''pdf''),
       HttpPost (lit ''https://x/formrecognizer/documentModels/prebuilt-read:analyze?api-version=2022-08-31'') (lit ''pdf'')])
   \<and> \<not> str_contains (lit ''Error extracting text from PDF: Failed to start analysis: Status: 400, Response: d'')
         (lit ''2024-02-29-preview'')
   \<and> \<not> str_contains (lit ''Error extracting text from PDF: Failed to start analysis: Status: 400, Response: d'')
         (lit ''404'')"
  by (simp add: rest_eval str_nat.simps)

lemma poll_statusD:
  assumes "poll_status r = Some status"
  obtains kvs where "status_code r = 200" "resp_json r = Some (JObj kvs)"
    "status = (case map_of kvs (lit ''status'') of None \<Rightarrow> JNull | Some s \<Rightarrow> s)"
proof -
  from assms have c: "status_code r = 200" by (simp add: poll_status_def split: if_splits)
  from assms c obtain v where v: "resp_json r = Some v"
    by (cases "resp_json r") (simp_all add: poll_status_def)
  from assms c v obtain kvs where k: "v = JObj kvs"
    by (cases v) (simp_all add: poll_status_def)
  from assms c v k have "status = (case map_of kvs (lit ''status'') of None \<Rightarrow> JNull | Some s \<Rightarrow> s)"
    by (simp add: poll_status_def)
  with c v k that show ?thesis by blast
qed

lemma poll_once_status:
  assumes "poll_status r = Some status"
  shows "poll_once sj r =
    (if status = JStr (lit ''succeeded'') then
       (case py_get (body_get r (lit ''analyzeResult'') (JObj [])) (lit ''content'') (JStr []) of
          Inl e \<Rightarrow> Raise e
        | Inr c \<Rightarrow> if has_len c then Return c else Raise (Builtin TypeError))
     else if status = JStr (lit ''failed'') then
       Raise (Exception (lit ''Analysis failed: '' @ sj (body_get r (lit ''error'') (JObj []))))
     else if status = JStr (lit ''running'') \<or> status = JStr (lit ''notStarted'') then Continue
     else Raise (Exception (lit ''Unknown status: '' @ sj status)))"
proof -
  from assms obtain kvs where k: "status_code r = 200" "resp_json r = Some (JObj kvs)"
    "status = (case map_of kvs (lit ''status'') of None \<Rightarrow> JNull | Some s \<Rightarrow> s)"
    by (rule poll_statusD)
  have g: "\<And>key dflt. body_get r key dflt = (case map_of kvs key of None \<Rightarrow> dflt | Some x \<Rightarrow> x)"
    using k(2) by (simp add: body_get_def)
  show ?thesis
    unfolding poll_once_def using k(1,2) k(3) [symmetric]
    by (simp add: g)
qed

lemma py_get_not_object:
  "json_items v = None \<Longrightarrow> py_get v key dflt = Inl (Builtin AttributeError)"
  by (cases v) simp_all

lemma poll_loop_raise:
  "poll_once sj (polls i) = Raise e \<Longrightarrow> 0 < n
     \<Longrightarrow> poll_loop sj polls url i n = (Inl e, [Sleep 2, HttpGet url])"
  by (cases n) simp_all

lemma poll_loop_return:
  "poll_once sj (polls i) = Return c \<Longrightarrow> 0 < n
     \<Longrightarrow> poll_loop sj polls url i n = (Inr c, [Sleep 2, HttpGet url])"
  by (cases n) simp_all

lemmas poll_eval = poll_status_def body_get_def body_response_def status_response_def
  succeeded_response_def failed_response_def null_result_response_def
  null_content_response_def running_then_succeeded_def str_text_def lit_def

text \<open>
  Claim C4, as stated, fails: the status \<open>succeeded\<close> does not decide the outcome alone. With
  the body \<open>{"status": "succeeded", "analyzeResult": null}\<close> the call
  \<open>analyze_result.get\<close> raises \<open>AttributeError\<close>, and with
  \<open>{"status": "succeeded", "analyzeResult": {"content": null}}\<close> the call \<open>len(content)\<close>
  raises \<open>TypeError\<close>: in both the poll raises and returns no text.
\<close>

theorem succeeded_status_may_raise:
  "poll_status null_result_response = Some (JStr (lit ''succeeded''))
   \<and> poll_loop str_text (\<lambda>i. null_result_response) (lit ''u'') 0 30
       = (Inl (Builtin AttributeError), [Sleep 2, HttpGet (lit ''u'')])
   \<and> poll_status null_content_response = Some (JStr (lit ''succeeded''))
   \<and> poll_loop str_text (\<lambda>i. null_content_response) (lit ''u'') 0 30
       = (Inl (Builtin TypeError), [Sleep 2, HttpGet (lit ''u'')])"
proof -
  have a: "poll_once str_text null_result_response = Raise (Builtin AttributeError)"
    by (simp add: poll_eval poll_once_def)
  have t: "poll_once str_text null_content_response = Raise (Builtin TypeError)"
    by (simp add: poll_eval poll_once_def)
  have sa: "poll_status null_result_response = Some (JStr (lit ''succeeded''))"
    by (simp add: poll_eval)
  have st: "poll_status null_content_response = Some (JStr (lit ''succeeded''))"
    by (simp add: poll_eval)
  show ?thesis
    using sa st poll_loop_raise [where polls = "\<lambda>i. null_result_response", OF a]
      poll_loop_raise [where polls = "\<lambda>i. null_content_response", OF t]
    by simp
qed

text \<open>
  Claim C4, amended. For a poll response with HTTP status 200 whose body is an object, the
  value of \<open>status\<close> and, for \<open>succeeded\<close>, the shape of the payload decide the iteration.
  \<open>succeeded\<close>: with \<open>analyzeResult\<close> an object (\<open>{}\<close> when absent) whose \<open>content\<close> (\<open>""\<close>
  when absent) is a string, a list or an object, that content is returned at once; with a
  \<open>content\<close> that has no length the poll raises \<open>TypeError\<close>, and with an \<open>analyzeResult\<close>
  that is not an object it raises \<open>AttributeError\<close>. \<open>failed\<close> raises at once with the
  \<open>error\<close> the service reported; \<open>running\<close> and \<open>notStarted\<close> go on to the next attempt;
  any other value raises at once as an unknown status.
\<close>

theorem poll_status_outcome:
  assumes "poll_status (polls i) = Some status"
  shows "(status = JStr (lit ''succeeded'')
            \<and> body_get (polls i) (lit ''analyzeResult'') (JObj []) = JObj a
            \<and> (case map_of a (lit ''content'') of None \<Rightarrow> JStr [] | Some v \<Rightarrow> v) = c
            \<and> has_len c
          \<longrightarrow> poll_loop sj polls url i (Suc n) = (Inr c, [Sleep 2, HttpGet url]))
    \<and> (status = JStr (lit ''succeeded'')
            \<and> body_get (polls i) (lit ''analyzeResult'') (JObj []) = JObj a
            \<and> \<not> has_len (case map_of a (lit ''content'') of None \<Rightarrow> JStr [] | Some v \<Rightarrow> v)
          \<longrightarrow> poll_loop sj polls url i (Suc n)
              = (Inl (Builtin TypeError), [Sleep 2, HttpGet url]))
    \<and> (status = JStr (lit ''succeeded'')
            \<and> json_items (body_get (polls i) (lit ''analyzeResult'') (JObj [])) = None
          \<longrightarrow> poll_loop sj polls url i (Suc n)
              = (Inl (Builtin AttributeError), [Sleep 2, HttpGet url]))
    \<and> (status = JStr (lit ''failed'')
          \<longrightarrow> poll_loop sj polls url i (Suc n)
              = (Inl (Exception (lit ''Analysis failed: ''
                                   @ sj (body_get (polls i) (lit ''error'') (JObj [])))),
                 [Sleep 2, HttpGet url]))
    \<and> (status = JStr (lit ''running'') \<or> status = JStr (lit ''notStarted'')
          \<longrightarrow> poll_loop sj polls url i (Suc n)
              = (fst (poll_loop sj polls url (Suc i) n),
                 [Sleep 2, HttpGet url] @ snd (poll_loop sj polls url (Suc i) n)))
    \<and> (status \<noteq> JStr (lit ''succeeded'') \<and> status \<noteq> JStr (lit ''failed'')
        \<and> status \<noteq> JStr (lit ''running'') \<and> status \<noteq> JStr (lit ''notStarted'')
          \<longrightarrow> poll_loop sj polls url i (Suc n)
              = (Inl (Exception (lit ''Unknown status: '' @ sj status)), [Sleep 2, HttpGet url]))"
proof -
  note once = poll_once_status [OF assms, of sj]
  have d: "JStr (lit ''failed'') \<noteq> JStr (lit ''succeeded'')"
    "JStr (lit ''running'') \<noteq> JStr (lit ''succeeded'')"
    "JStr (lit ''running'') \<noteq> JStr (lit ''failed'')"
    "JStr (lit ''notStarted'') \<noteq> JStr (lit ''succeeded'')"
    "JStr (lit ''notStarted'') \<noteq> JStr (lit ''failed'')"
    by (simp_all add: lit_def)
  have 1: "poll_loop sj polls url i (Suc n) = (Inr c, [Sleep 2, HttpGet url])"
    if "status = JStr (lit ''succeeded'')"
      "body_get (polls i) (lit ''analyzeResult'') (JObj []) = JObj a"
      "(case map_of a (lit ''content'') of None \<Rightarrow> JStr [] | Some v \<Rightarrow> v) = c"
      "has_len c"
    using that by (simp add: once)
  have 2: "poll_loop sj polls url i (Suc n) = (Inl (Builtin TypeError), [Sleep 2, HttpGet url])"
    if "status = JStr (lit ''succeeded'')"
      "body_get (polls i) (lit ''analyzeResult'') (JObj []) = JObj a"
      "\<not> has_len (case map_of a (lit ''content'') of None \<Rightarrow> JStr [] | Some v \<Rightarrow> v)"
    using that by (simp add: once)
  have 3: "poll_loop sj polls url i (Suc n)
             = (Inl (Builtin AttributeError), [Sleep 2, HttpGet url])"
    if "status = JStr (lit ''succeeded'')"
      "json_items (body_get (polls i) (lit ''analyzeResult'') (JObj [])) = None"
    using that by (simp add: once py_get_not_object)
  have 4: "poll_loop sj polls url i (Suc n)
              = (Inl (Exception (lit ''Analysis failed: ''
                                   @ sj (body_get (polls i) (lit ''error'') (JObj [])))),
                 [Sleep 2, HttpGet url])"
    if "status = JStr (lit ''failed'')"
    using that d by (simp add: once)
  have 5: "poll_loop sj polls url i (Suc n)
              = (fst (poll_loop sj polls url (Suc i) n),
                 [Sleep 2, HttpGet url] @ snd (poll_loop sj polls url (Suc i) n))"
    if "status = JStr (lit ''running'') \<or> status = JStr (lit ''notStarted'')"
    using that d by (cases "poll_loop sj polls url (Suc i) n") (auto simp: once)
  have 6: "poll_loop sj polls url i (Suc n)
              = (Inl (Exception (lit ''Unknown status: '' @ sj status)), [Sleep 2, HttpGet url])"
    if "status \<noteq> JStr (lit ''succeeded'')" "status \<noteq> JStr (lit ''failed'')"
       "status \<noteq> JStr (lit ''running'')" "status \<noteq> JStr (lit ''notStarted'')"
    using that by (simp add: once)
  show ?thesis using 1 2 3 4 5 6 by blast
qed

theorem poll_status_outcome_witness:
  "poll_status succeeded_response = Some (JStr (lit ''succeeded''))
   \<and> poll_loop str_text (\<lambda>i. succeeded_response) (lit ''u'') 0 (Suc 29)
       = (Inr (JStr (lit ''John Doe'')), [Sleep 2, HttpGet (lit ''u'')])
   \<and> poll_loop str_text (\<lambda>i. null_content_response) (lit ''u'') 0 (Suc 29)
       = (Inl (Builtin TypeError), [Sleep 2, HttpGet (lit ''u'')])
   \<and> poll_loop str_text (\<lambda>i. null_result_response) (lit ''u'') 0 (Suc 29)
       = (Inl (Builtin AttributeError), [Sleep 2, HttpGet (lit ''u'')])
   \<and> poll_status failed_response = Some (JStr (lit ''failed''))
   \<and> poll_loop str_text (\<lambda>i. failed_response) (lit ''u'') 0 (Suc 29)
       = (Inl (Exception (lit ''Analysis failed: quota exceeded'')), [Sleep 2, HttpGet (lit ''u'')])
   \<and> poll_status (running_then_succeeded 0) = Some (JStr (lit ''running''))
   \<and> poll_loop str_text running_then_succeeded (lit ''u'') 0 (Suc 29)
       = (Inr (JStr (lit ''John Doe'')),
          [Sleep 2, HttpGet (lit ''u''), Sleep 2, HttpGet (lit ''u'')])
   \<and> poll_status (status_response ''cancelled'') = Some (JStr (lit ''cancelled''))
   \<and> poll_loop str_text (\<lambda>i. status_response ''cancelled'') (lit ''u'') 0 (Suc 29)
       = (Inl (Exception (lit ''Unknown status: cancelled'')), [Sleep 2, HttpGet (lit ''u'')])"
proof -
  let ?u = "lit ''u''"
  let ?ok = "JStr (lit ''succeeded'')"
  have s: "poll_status succeeded_response = Some ?ok"
    by (simp add: poll_eval)
  have sa: "body_get succeeded_response (lit ''analyzeResult'') (JObj [])
             = JObj [(lit ''content'', JStr (lit ''John Doe''))]"
    by (simp add: poll_eval)
  have sc: "(case map_of [(lit ''content'', JStr (lit ''John Doe''))] (lit ''content'') of
              None \<Rightarrow> JStr [] | Some v \<Rightarrow> v) = JStr (lit ''John Doe'')"
    by simp
  have sl: "has_len (JStr (lit ''John Doe''))" by simp
  have 1: "poll_loop str_text (\<lambda>i. succeeded_response) ?u 0 (Suc 29)
       = (Inr (JStr (lit ''John Doe'')), [Sleep 2, HttpGet ?u])"
    using poll_status_outcome [where polls = "\<lambda>i. succeeded_response" and i = 0
        and status = ?ok and a = "[(lit ''content'', JStr (lit ''John Doe''))]"
        and c = "JStr (lit ''John Doe'')" and sj = str_text and url = ?u and n = 29]
      s sa sc sl
    by blast
  have t: "poll_status null_content_response = Some ?ok"
    by (simp add: poll_eval)
  have ta: "body_get null_content_response (lit ''analyzeResult'') (JObj [])
             = JObj [(lit ''content'', JNull)]"
    by (simp add: poll_eval)
  have tc: "\<not> has_len (case map_of [(lit ''content'', JNull)] (lit ''content'') of
              None \<Rightarrow> JStr [] | Some v \<Rightarrow> v)"
    by simp
  have 2: "poll_loop str_text (\<lambda>i. null_content_response) ?u 0 (Suc 29)
       = (Inl (Builtin TypeError), [Sleep 2, HttpGet ?u])"
    using poll_status_outcome [where polls = "\<lambda>i. null_content_response" and i = 0
        and status = ?ok and a = "[(lit ''content'', JNull)]"
        and sj = str_text and url = ?u and n = 29]
      t ta tc
    by blast
  have a: "poll_status null_result_response = Some ?ok"
    by (simp add: poll_eval)
  have aa: "json_items (body_get null_result_response (lit ''analyzeResult'') (JObj [])) = None"
    by (simp add: poll_eval)
  have 3: "poll_loop str_text (\<lambda>i. null_result_response) ?u 0 (Suc 29)
       = (Inl (Builtin AttributeError), [Sleep 2, HttpGet ?u])"
    using poll_status_outcome [where polls = "\<lambda>i. null_result_response" and i = 0
        and status = ?ok and sj = str_text and url = ?u and n = 29]
      a aa
    by blast
  have f: "poll_status failed_response = Some (JStr (lit ''failed''))"
    by (simp add: poll_eval)
  have fe: "lit ''Analysis failed: '' @ str_text (body_get failed_response (lit ''error'') (JObj []))
             = lit ''Analysis failed: quota exceeded''"
    by (simp add: poll_eval)
  have 4: "poll_loop str_text (\<lambda>i. failed_response) ?u 0 (Suc 29)
       = (Inl (Exception (lit ''Analysis failed: quota exceeded'')), [Sleep 2, HttpGet ?u])"
    using poll_status_outcome [where polls = "\<lambda>i. failed_response" and i = 0
        and status = "JStr (lit ''failed'')" and sj = str_text and url = ?u and n = 29]
      f fe
    by simp
  have r: "poll_status (running_then_succeeded 0) = Some (JStr (lit ''running''))"
    by (simp add: poll_eval)
  have r1: "poll_loop str_text running_then_succeeded ?u (Suc 0) 29
       = (Inr (JStr (lit ''John Doe'')), [Sleep 2, HttpGet ?u])"
  proof -
    have "poll_once str_text (running_then_succeeded (Suc 0)) = Return (JStr (lit ''John Doe''))"
      by (simp add: poll_eval poll_once_def)
    then show ?thesis by (rule poll_loop_return) simp
  qed
  have 5: "poll_loop str_text running_then_succeeded ?u 0 (Suc 29)
       = (Inr (JStr (lit ''John Doe'')), [Sleep 2, HttpGet ?u, Sleep 2, HttpGet ?u])"
    using poll_status_outcome [where polls = running_then_succeeded and i = 0
        and status = "JStr (lit ''running'')" and sj = str_text and url = ?u and n = 29]
      r r1
    by simp
  have u: "poll_status (status_response ''cancelled'') = Some (JStr (lit ''cancelled''))"
    by (simp add: poll_eval)
  have ne: "JStr (lit ''cancelled'') \<noteq> JStr (lit ''succeeded'')"
    "JStr (lit ''cancelled'') \<noteq> JStr (lit ''failed'')"
    "JStr (lit ''cancelled'') \<noteq> JStr (lit ''running'')"
    "JStr (lit ''cancelled'') \<noteq> JStr (lit ''notStarted'')"
    by (simp_all add: lit_def)
  have ue: "lit ''Unknown status: '' @ str_text (JStr (lit ''cancelled''))
             = lit ''Unknown status: cancelled''"
    by (simp add: str_text_def lit_def)
  have 6: "poll_loop str_text (\<lambda>i. status_response ''cancelled'') ?u 0 (Suc 29)
       = (Inl (Exception (lit ''Unknown status: cancelled'')), [Sleep 2, HttpGet ?u])"
    using poll_status_outcome [where polls = "\<lambda>i. status_response ''cancelled''" and i = 0
        and status = "JStr (lit ''cancelled'')" and sj = str_text and url = ?u and n = 29]
      u ne ue
    by simp
  show ?thesis using s 1 2 3 f 4 r 5 u 6 by blast
qed

section \<open>Evaluating the decoder\<close>

text \<open>The recursion of the scanner on a bound written as a numeral.\<close>

lemma scan_once_numeral:
  "scan_once (numeral k) s = scan_once (Suc (pred_numeral k)) s"
  by (subst numeral_eq_Suc) (rule refl)

lemma scan_array_numeral:
  "scan_array (numeral k) acc s = scan_array (Suc (pred_numeral k)) acc s"
  by (subst numeral_eq_Suc) (rule refl)

lemma scan_object_numeral:
  "scan_object (numeral k) acc s = scan_object (Suc (pred_numeral k)) acc s"
  by (subst numeral_eq_Suc) (rule refl)

lemmas json_eval = json_loads_def scan_once_numeral scan_array_numeral scan_object_numeral
  scan_atom_def scan_number_def scan_int_part_def scan_frac_def scan_exp_def decimal_value_def
  digits_value_def is_digit_def is_ws_def skip_ws_def lit_def

lemmas reply_eval = example_reply_def example_payload_def partial_reply_def prose_reply_def
  quoted_def fence_open_def fence_close_def

section \<open>Properties of the decoder\<close>

subsection \<open>The parse chain\<close>



lemma or_fallback_truthy: "truthy a \<Longrightarrow> or_fallback a = a"
  by (simp add: or_fallback_def)

lemma from_regex_truthy: "truthy a \<Longrightarrow> from_regex loads rc a = a"
  by (simp add: from_regex_def)


lemma parse_indirect:
  "loads (str_strip reply) = None \<Longrightarrow>
     analyze_resume_with_gpt4o loads reply
       = or_fallback (from_regex loads (str_strip reply) (from_markdown loads (str_strip reply)))"
  by (simp add: analyze_resume_with_gpt4o_def Let_def)

lemma from_markdown_fails:
  "fenced_extraction_fails loads reply \<Longrightarrow> from_markdown loads (str_strip reply) = JNull"
  by (auto simp: fenced_extraction_fails_def from_markdown_def split: if_splits option.splits)

lemma from_regex_fails:
  "object_scan_fails loads reply \<Longrightarrow> from_regex loads (str_strip reply) JNull = JNull"
  by (auto simp: object_scan_fails_def from_regex_def split: option.splits)

lemma parse_fallback:
  assumes "all_strategies_fail loads reply"
  shows "analyze_resume_with_gpt4o loads reply = fallback_analysis"
proof -
  from assms have d: "loads (str_strip reply) = None"
    and f: "fenced_extraction_fails loads reply" and o: "object_scan_fails loads reply"
    by (simp_all add: all_strategies_fail_def direct_parse_fails_def)
  show ?thesis
    using d by (simp add: parse_indirect from_markdown_fails [OF f] from_regex_fails [OF o]
        or_fallback_def)
qed

subsection \<open>The record\<close>

lemma py_get_field: "py_get (JObj kvs) (lit k) d = Inr (field kvs k d)"
  by (simp add: field_def)

lemma skill_match_ok: "skill_entry_ok s \<Longrightarrow> skill_match s = Inr (skill_of s)"
  by (cases s) (auto simp: skill_match_def and_then_def has_field_def field_def)

lemma skill_matches_ok:
  "list_all skill_entry_ok xs \<Longrightarrow> skill_matches xs = Inr (map skill_of xs)"
  by (induction xs) (simp_all add: and_then_def skill_match_ok)

lemma skills_okD:
  assumes "skills_ok kvs"
  obtains xs where "field kvs ''skills'' (JArr []) = JArr xs" "list_all skill_entry_ok xs"
    "skill_items kvs = xs"
proof -
  from assms obtain xs where l: "list_items (field kvs ''skills'' (JArr [])) = Some xs"
    and a: "list_all skill_entry_ok xs"
    by (auto simp: skills_ok_def split: option.splits)
  from l have "field kvs ''skills'' (JArr []) = JArr xs"
    by (cases "field kvs ''skills'' (JArr [])") simp_all
  with l a that show ?thesis by (simp add: skill_items_def)
qed

lemma build_record:
  assumes "analyze_resume_with_gpt4o loads reply = JObj kvs" and "skills_ok kvs"
  shows "analyze_resume loads text_in reply =
           Inr \<lparr>extracted_text = text_in,
                skills = map skill_of (skill_items kvs),
                role_match_score = field kvs ''role_match_score'' (JFloat (Dec 0)),
                strengths = field kvs ''strengths'' (JArr []),
                gaps = field kvs ''gaps'' (JArr []),
                recommendations = field kvs ''recommendations'' (JArr []),
                summary = field kvs ''summary'' (JStr [])\<rparr>"
proof -
  from assms(2) obtain xs where xs: "field kvs ''skills'' (JArr []) = JArr xs"
    "list_all skill_entry_ok xs" "skill_items kvs = xs"
    by (rule skills_okD)
  show ?thesis
    by (simp add: analyze_resume_def Let_def assms(1) py_get_field xs skill_matches_ok
        and_then_def del: py_get.simps)
qed


subsection \<open>Finding the fences\<close>

lemma str_startswith_shorter:
  assumes "str_startswith (x @ y) sub" and "length sub \<le> length x"
  shows "str_startswith x sub"
proof -
  from assms(1) obtain q where q: "x @ y = sub @ q" by (auto simp: str_startswith_iff)
  have "take (length sub) (x @ y) = sub" by (simp add: q)
  with assms(2) have "take (length sub) x = sub" by simp
  then have "x = sub @ drop (length sub) x" by (metis append_take_drop_id)
  then show ?thesis unfolding str_startswith_iff by blast
qed

lemma find_from_first:
  assumes "\<not> str_contains (pre @ butlast sub) sub" and "sub \<noteq> []"
  shows "find_from (pre @ sub @ post) sub i = int (i + length pre)"
  using assms(1)
proof (induction pre arbitrary: i)
  case Nil
  from assms(2) obtain c cs where c: "sub @ post = c # cs" by (cases sub) auto
  have "str_startswith (sub @ post) sub" unfolding str_startswith_iff by blast
  then show ?case by (simp add: c)
next
  case (Cons a p)
  from Cons.prems have n: "\<not> str_startswith ((a # p) @ butlast sub) sub"
    and r: "\<not> str_contains (p @ butlast sub) sub"
    by simp_all
  have "\<not> str_startswith (a # p @ sub @ post) sub"
  proof
    assume s: "str_startswith (a # p @ sub @ post) sub"
    have e: "a # p @ sub @ post = ((a # p) @ butlast sub) @ ([last sub] @ post)"
      using assms(2) by simp
    have "length sub \<le> length ((a # p) @ butlast sub)" by simp
    with s e have "str_startswith ((a # p) @ butlast sub) sub"
      by (metis str_startswith_shorter)
    with n show False ..
  qed
  with Cons.IH [OF r, of "Suc i"] show ?case by simp
qed

lemma fenced_span_found:
  assumes rc: "rc = pre @ fence_open @ body @ fence_close @ post"
    and first: "\<not> str_contains (pre @ butlast fence_open) fence_open"
    and nxt: "\<not> str_contains (body @ butlast fence_close) fence_close"
  shows "fenced_span rc = (if body = [] then None else Some (str_strip body))"
proof -
  have l: "length fence_open = 7" by (simp add: fence_open_def)
  have o: "fence_open \<noteq> []" and c: "fence_close \<noteq> []"
    by (simp_all add: fence_open_def fence_close_def)
  have start: "str_find rc fence_open 0 = int (length pre)"
    using find_from_first [OF first o, of "body @ fence_close @ post" 0]
    by (simp add: str_find_def rc)
  have d: "drop (length pre + 7) rc = body @ fence_close @ post"
    by (simp add: rc l)
  have stop: "str_find rc fence_close (length pre + 7) = int (length pre + 7 + length body)"
    using find_from_first [OF nxt c, of post "length pre + 7"]
    by (simp add: str_find_def d) (simp add: rc l)
  have n: "nat (int (length pre) + 7) = length pre + 7" by simp
  have s: "str_slice rc (int (length pre) + 7) (int (length pre + 7 + length body)) = body"
    by (simp add: str_slice_def d nat_add_distrib)
  show ?thesis
    unfolding fenced_span_def Let_def start n stop s by simp
qed

lemma fence_contained:
  "str_contains (pre @ fence_open @ rest) fence_open"
  unfolding str_contains_iff by blast

subsection \<open>The placeholder record\<close>

lemma fallback_record:
  assumes "all_strategies_fail loads reply"
  shows "analyze_resume loads text_in reply =
           Inr \<lparr>extracted_text = text_in,
                skills = [generic_skill ''Communication'' (7 / 10) ''soft'',
                          generic_skill ''Problem Solving'' (8 / 10) ''soft'',
                          generic_skill ''Technical Skills'' (6 / 10) ''technical''],
                role_match_score = JFloat (Dec (65 / 100)),
                strengths = JArr [JStr (lit ''Professional experience''),
                                  JStr (lit ''Educational background'')],
                gaps = JArr [JStr (lit ''Analysis incomplete due to response parsing issues'')],
                recommendations = JArr [JStr (lit ''Review and update resume format''),
                                        JStr (lit ''Consider professional resume review'')],
                summary = JStr (lit ''Candidate shows potential but full analysis was limited due to technical issues.'')\<rparr>"
proof -
  define kvs where "kvs = (case fallback_analysis of JObj xs \<Rightarrow> xs | _ \<Rightarrow> [])"
  have f: "fallback_analysis = JObj kvs"
    by (simp add: kvs_def fallback_analysis_def)
  have k: "kvs =
     [(lit ''skills'',
         JArr [fallback_skill ''Communication'' (7 / 10) ''soft'',
               fallback_skill ''Problem Solving'' (8 / 10) ''soft'',
               fallback_skill ''Technical Skills'' (6 / 10) ''technical'']),
      (lit ''role_match_score'', JFloat (Dec (65 / 100))),
      (lit ''strengths'',
         JArr [JStr (lit ''Professional experience''), JStr (lit ''Educational background'')]),
      (lit ''gaps'', JArr [JStr (lit ''Analysis incomplete due to response parsing issues'')]),
      (lit ''recommendations'',
         JArr [JStr (lit ''Review and update resume format''),
               JStr (lit ''Consider professional resume review'')]),
      (lit ''summary'',
         JStr (lit ''Candidate shows potential but full analysis was limited due to technical issues.''))]"
    by (simp add: kvs_def fallback_analysis_def)
  have p: "analyze_resume_with_gpt4o loads reply = JObj kvs"
    using parse_fallback [OF assms] f by simp
  have sk: "field kvs ''skills'' (JArr [])
              = JArr [fallback_skill ''Communication'' (7 / 10) ''soft'',
                      fallback_skill ''Problem Solving'' (8 / 10) ''soft'',
                      fallback_skill ''Technical Skills'' (6 / 10) ''technical'']"
    by (simp add: k field_def)
  have e: "skill_entry_ok (fallback_skill name score cat)"
    "skill_of (fallback_skill name score cat) = generic_skill name score cat"
    for name score cat
    by (simp_all add: fallback_skill_def generic_skill_def has_field_def field_def lit_def)
  have ok: "skills_ok kvs"
    by (simp add: skills_ok_def sk e)
  have items: "map skill_of (skill_items kvs)
                 = [generic_skill ''Communication'' (7 / 10) ''soft'',
                    generic_skill ''Problem Solving'' (8 / 10) ''soft'',
                    generic_skill ''Technical Skills'' (6 / 10) ''technical'']"
    by (simp add: skill_items_def sk e)
  have r: "field kvs ''role_match_score'' (JFloat (Dec 0)) = JFloat (Dec (65 / 100))"
    by (simp add: k field_def lit_def)
  have s: "field kvs ''strengths'' (JArr [])
             = JArr [JStr (lit ''Professional experience''), JStr (lit ''Educational background'')]"
    by (simp add: k field_def) (simp add: lit_def)
  have g: "field kvs ''gaps'' (JArr [])
             = JArr [JStr (lit ''Analysis incomplete due to response parsing issues'')]"
    by (simp add: k field_def) (simp add: lit_def)
  have c: "field kvs ''recommendations'' (JArr [])
             = JArr [JStr (lit ''Review and update resume format''),
                     JStr (lit ''Consider professional resume review'')]"
    by (simp add: k field_def) (simp add: lit_def)
  have m: "field kvs ''summary'' (JStr [])
             = JStr (lit ''Candidate shows potential but full analysis was limited due to technical issues.'')"
    by (simp add: k field_def) (simp add: lit_def)
  show ?thesis
    unfolding build_record [OF p ok] items r s g c m by (rule refl)
qed

lemma prose_strip: "str_strip prose_reply = prose_reply"
  by (simp add: str_strip_def isspace_def reply_eval lit_def)

lemma prose_all_fail: "all_strategies_fail json_loads prose_reply"
  unfolding all_strategies_fail_def direct_parse_fails_def fenced_extraction_fails_def
    object_scan_fails_def prose_strip
  by (simp add: json_eval reply_eval brace_match_def del: Suc_numeral)

text \<open>
  Claim C5, as stated, fails. The reply \<open>Sorry, I cannot help.\<close> is no JSON text, has no fence
  and no brace, so all three strategies fail; the record built from the placeholder has two
  strengths and two recommendations, not one of each.
\<close>

theorem fallback_lists_two_strengths:
  "all_strategies_fail json_loads prose_reply
   \<and> \<not> isl (analyze_resume json_loads [] prose_reply)
   \<and> strengths (projr (analyze_resume json_loads [] prose_reply))
       = JArr [JStr (lit ''Professional experience''), JStr (lit ''Educational background'')]
   \<and> entries (strengths (projr (analyze_resume json_loads [] prose_reply))) = 2
   \<and> recommendations (projr (analyze_resume json_loads [] prose_reply))
       = JArr [JStr (lit ''Review and update resume format''),
               JStr (lit ''Consider professional resume review'')]
   \<and> entries (recommendations (projr (analyze_resume json_loads [] prose_reply))) = 2"
  by (simp add: prose_all_fail fallback_record [OF prose_all_fail])

text \<open>
  Claim C5, amended. For every reply on which all three parse strategies fail (the direct
  parse; the fenced block, which is absent, unclosed, empty or does not parse; the span from
  the first \<open>{\<close> to the last \<open>}\<close>, which is absent or does not parse), the decoder returns
  the fixed placeholder record: three generic skills, \<open>role_match_score = 0.65\<close>, two generic
  strengths, one generic gap, two generic recommendations, and a non-empty summary that
  notes the limitation.
\<close>

theorem fallback_when_all_strategies_fail:
  assumes "all_strategies_fail loads reply"
  shows "analyze_resume loads text_in reply =
           Inr \<lparr>extracted_text = text_in,
                skills = [generic_skill ''Communication'' (7 / 10) ''soft'',
                          generic_skill ''Problem Solving'' (8 / 10) ''soft'',
                          generic_skill ''Technical Skills'' (6 / 10) ''technical''],
                role_match_score = JFloat (Dec (65 / 100)),
                strengths = JArr [JStr (lit ''Professional experience''),
                                  JStr (lit ''Educational background'')],
                gaps = JArr [JStr (lit ''Analysis incomplete due to response parsing issues'')],
                recommendations = JArr [JStr (lit ''Review and update resume format''),
                                        JStr (lit ''Consider professional resume review'')],
                summary = JStr (lit ''Candidate shows potential but full analysis was limited due to technical issues.'')\<rparr>"
  using assms by (rule fallback_record)

theorem fallback_when_all_strategies_fail_witness:
  "all_strategies_fail json_loads prose_reply
   \<and> extracted_text (projr (analyze_resume json_loads (lit ''cv'') prose_reply)) = lit ''cv''
   \<and> length (skills (projr (analyze_resume json_loads (lit ''cv'') prose_reply))) = 3
   \<and> role_match_score (projr (analyze_resume json_loads (lit ''cv'') prose_reply))
       = JFloat (Dec (65 / 100))
   \<and> entries (gaps (projr (analyze_resume json_loads (lit ''cv'') prose_reply))) = 1
   \<and> summary (projr (analyze_resume json_loads (lit ''cv'') prose_reply))
       = JStr (lit ''Candidate shows potential but full analysis was limited due to technical issues.'')
   \<and> summary (projr (analyze_resume json_loads (lit ''cv'') prose_reply)) \<noteq> JStr []"
  using fallback_when_all_strategies_fail [where loads = json_loads and reply = prose_reply
      and text_in = "lit ''cv''", OF prose_all_fail] prose_all_fail
  by (simp add: lit_def)

subsection \<open>Totality of the decoder\<close>







subsection \<open>The fenced block\<close>

lemma fenced_extraction:
  assumes direct: "loads (str_strip reply) = None"
    and shape: "str_strip reply = pre @ fence_open @ body @ fence_close @ post"
    and first: "\<not> str_contains (pre @ butlast fence_open) fence_open"
    and nxt: "\<not> str_contains (body @ butlast fence_close) fence_close"
  shows "fenced_span (str_strip reply) = (if body = [] then None else Some (str_strip body))"
    and "from_markdown loads (str_strip reply)
           = (if body = [] then JNull
              else case loads (str_strip body) of None \<Rightarrow> JNull | Some v \<Rightarrow> v)"
    and "body \<noteq> [] \<and> loads (str_strip body) = Some v \<and> truthy v
           \<longrightarrow> analyze_resume_with_gpt4o loads reply = v"
proof -
  show s: "fenced_span (str_strip reply)
             = (if body = [] then None else Some (str_strip body))"
    using shape first nxt by (rule fenced_span_found)
  have c: "str_contains (str_strip reply) fence_open"
    unfolding shape by (rule fence_contained)
  show m: "from_markdown loads (str_strip reply)
           = (if body = [] then JNull
              else case loads (str_strip body) of None \<Rightarrow> JNull | Some v \<Rightarrow> v)"
    by (simp add: from_markdown_def c s)
  show "body \<noteq> [] \<and> loads (str_strip body) = Some v \<and> truthy v
           \<longrightarrow> analyze_resume_with_gpt4o loads reply = v"
  proof
    assume a: "body \<noteq> [] \<and> loads (str_strip body) = Some v \<and> truthy v"
    with m have "from_markdown loads (str_strip reply) = v" by simp
    with a show "analyze_resume_with_gpt4o loads reply = v"
      using direct by (simp add: parse_indirect from_regex_truthy or_fallback_truthy)
  qed
qed

text \<open>The example of the specification: the text before the fence, the body of the block,
  and the text after it.\<close>

lemma example_direct_fails: "json_loads (str_strip example_reply) = None"
  by (simp add: json_eval reply_eval str_strip_def isspace_def del: Suc_numeral)

lemma example_shape:
  "str_strip example_reply
     = lit ''Sure! '' @ fence_open @ ([10] @ example_payload @ [10]) @ fence_close @ lit '' thanks''"
  by (simp add: str_strip_def isspace_def reply_eval lit_def)

lemma example_first: "\<not> str_contains (lit ''Sure! '' @ butlast fence_open) fence_open"
  by (simp add: reply_eval lit_def)

lemma example_next:
  "\<not> str_contains (([10] @ example_payload @ [10]) @ butlast fence_close) fence_close"
  by (simp add: reply_eval lit_def)

lemma example_body: "str_strip ([10] @ example_payload @ [10]) = example_payload"
  by (simp add: str_strip_def isspace_def reply_eval lit_def)

lemma example_parses: "json_loads example_payload = Some example_value"
  by (simp add: json_eval reply_eval example_value_def del: Suc_numeral)

lemma example_decodes:
  "analyze_resume_with_gpt4o json_loads example_reply = example_value"
proof -
  have "[10] @ example_payload @ [10] \<noteq> []" by simp
  moreover have "json_loads (str_strip ([10] @ example_payload @ [10])) = Some example_value"
    by (simp only: example_body example_parses)
  moreover have "truthy example_value" by (simp add: example_value_def)
  ultimately show ?thesis
    using fenced_extraction(3) [where loads = json_loads and reply = example_reply
        and pre = "lit ''Sure! ''" and body = "[10] @ example_payload @ [10]"
        and post = "lit '' thanks''" and v = example_value]
      example_direct_fails example_shape example_first example_next
    by blast
qed

lemma example_record:
  "analyze_resume json_loads text_in example_reply =
     Inr \<lparr>extracted_text = text_in, skills = [],
          role_match_score = JFloat (Dec (42 / 100)),
          strengths = JArr [JStr (lit ''x'')],
          gaps = JArr [], recommendations = JArr [],
          summary = JStr (lit ''ok'')\<rparr>"
proof -
  define kvs where "kvs = (case example_value of JObj xs \<Rightarrow> xs | _ \<Rightarrow> [])"
  have v: "example_value = JObj kvs" by (simp add: kvs_def example_value_def)
  have k: "kvs = [(lit ''skills'', JArr []),
                  (lit ''role_match_score'', JFloat (Dec (42 / 100))),
                  (lit ''strengths'', JArr [JStr (lit ''x'')]),
                  (lit ''gaps'', JArr []),
                  (lit ''recommendations'', JArr []),
                  (lit ''summary'', JStr (lit ''ok''))]"
    by (simp add: kvs_def example_value_def)
  have p: "analyze_resume_with_gpt4o json_loads example_reply = JObj kvs"
    using example_decodes v by simp
  have ok: "skills_ok kvs"
    by (simp add: skills_ok_def field_def k)
  have f: "skill_items kvs = []"
    "field kvs ''role_match_score'' (JFloat (Dec 0)) = JFloat (Dec (42 / 100))"
    "field kvs ''strengths'' (JArr []) = JArr [JStr (lit ''x'')]"
    "field kvs ''gaps'' (JArr []) = JArr []"
    "field kvs ''recommendations'' (JArr []) = JArr []"
    "field kvs ''summary'' (JStr []) = JStr (lit ''ok'')"
    by (simp_all add: skill_items_def field_def k) (simp_all add: lit_def)
  show ?thesis
    unfolding build_record [OF p ok] f by simp
qed

text \<open>
  Claim C6. When the direct parse of the (stripped) reply fails and the reply holds a block
  between the first opening fence \<open>```json\<close> and the next closing fence \<open>```\<close>, the text the
  decoder hands to the parser in the fenced strategy is exactly the body of that block,
  stripped of surrounding white space (nothing is parsed when the body is empty); the value
  it denotes, when there is a non-empty one, is the result of the decoder. In particular the
  example reply of the specification decodes to the record with
  \<open>role_match_score = 0.42\<close> and \<open>strengths = ["x"]\<close>.
  The opening fence at the end of \<open>pre\<close> is the first one when none begins inside \<open>pre\<close>,
  that is, none occurs in \<open>pre\<close> followed by the fence without its last character; likewise
  for the closing fence after \<open>body\<close>.
\<close>

theorem fenced_block_is_parsed:
  "(loads (str_strip reply) = None
      \<and> str_strip reply = pre @ fence_open @ body @ fence_close @ post
      \<and> \<not> str_contains (pre @ butlast fence_open) fence_open
      \<and> \<not> str_contains (body @ butlast fence_close) fence_close
    \<longrightarrow> fenced_span (str_strip reply) = (if body = [] then None else Some (str_strip body))
      \<and> from_markdown loads (str_strip reply)
          = (if body = [] then JNull
             else case loads (str_strip body) of None \<Rightarrow> JNull | Some v \<Rightarrow> v)
      \<and> (\<forall>v. body \<noteq> [] \<and> loads (str_strip body) = Some v \<and> truthy v
             \<longrightarrow> analyze_resume_with_gpt4o loads reply = v))
   \<and> analyze_resume json_loads text_in example_reply =
       Inr \<lparr>extracted_text = text_in, skills = [],
            role_match_score = JFloat (Dec (42 / 100)),
            strengths = JArr [JStr (lit ''x'')],
            gaps = JArr [], recommendations = JArr [],
            summary = JStr (lit ''ok'')\<rparr>"
  using fenced_extraction [of loads reply pre body post] example_record [of text_in]
  by blast

theorem fenced_block_is_parsed_witness:
  "json_loads (str_strip example_reply) = None
   \<and> str_strip example_reply
       = lit ''Sure! '' @ fence_open @ ([10] @ example_payload @ [10]) @ fence_close @ lit '' thanks''
   \<and> fenced_span (str_strip example_reply) = Some example_payload
   \<and> from_markdown json_loads (str_strip example_reply) = example_value
   \<and> analyze_resume_with_gpt4o json_loads example_reply = example_value"
proof -
  note t = fenced_block_is_parsed [where loads = json_loads and reply = example_reply
      and pre = "lit ''Sure! ''" and body = "[10] @ example_payload @ [10]"
      and post = "lit '' thanks''"]
  have b: "[10] @ example_payload @ [10] \<noteq> []" by simp
  have l: "json_loads (str_strip ([10] @ example_payload @ [10])) = Some example_value"
    by (simp only: example_body example_parses)
  have y: "truthy example_value" by (simp add: example_value_def)
  from t example_direct_fails example_shape example_first example_next
  have c: "fenced_span (str_strip example_reply)
             = (if [10] @ example_payload @ [10] = [] then None
                else Some (str_strip ([10] @ example_payload @ [10])))"
    and m: "from_markdown json_loads (str_strip example_reply)
          = (if [10] @ example_payload @ [10] = [] then JNull
             else case json_loads (str_strip ([10] @ example_payload @ [10])) of
                    None \<Rightarrow> JNull | Some v \<Rightarrow> v)"
    and d: "\<forall>v. [10] @ example_payload @ [10] \<noteq> []
                \<and> json_loads (str_strip ([10] @ example_payload @ [10])) = Some v \<and> truthy v
             \<longrightarrow> analyze_resume_with_gpt4o json_loads example_reply = v"
    by blast+
  have 1: "fenced_span (str_strip example_reply) = Some example_payload"
    using c b by (simp only: example_body if_False)
  have 2: "from_markdown json_loads (str_strip example_reply) = example_value"
    using m b l by simp
  have 3: "analyze_resume_with_gpt4o json_loads example_reply = example_value"
    using d b l y by blast
  show ?thesis using example_direct_fails example_shape 1 2 3 by blast
qed

end
